theory Spec2Isabelle
  imports Main "HOL-Library.Word"
begin

section \<open>Errors and formatting\<close>

text \<open>
  A Go \<^verbatim>\<open>error\<close> built by \<^verbatim>\<open>fmt.Errorf\<close> is modelled by its message; a function
  returning \<^verbatim>\<open>error\<close> returns \<open>error option\<close>, \<open>None\<close> being \<^verbatim>\<open>nil\<close>.
\<close>

type_synonym error = string

text \<open>The verb \<^verbatim>\<open>%d\<close>: an integer in decimal, with a minus sign when negative.\<close>

fun digits :: "nat \<Rightarrow> string" where
  "digits n =
     (if n < 10 then [''0123456789'' ! n]
      else digits (n div 10) @ [''0123456789'' ! (n mod 10)])"

declare digits.simps [simp del]

definition fmt_d :: "int \<Rightarrow> string" where
  "fmt_d i = (if i < 0 then CHR ''-'' # digits (nat (- i)) else digits (nat i))"

text \<open>\<open>contains s t\<close>: the text \<open>t\<close> occurs in \<open>s\<close> as a contiguous run.\<close>

fun is_prefix :: "string \<Rightarrow> string \<Rightarrow> bool" where
  "is_prefix [] s = True"
| "is_prefix (c # t) [] = False"
| "is_prefix (c # t) (d # s) = (c = d \<and> is_prefix t s)"

fun contains :: "string \<Rightarrow> string \<Rightarrow> bool" where
  "contains [] t = (t = [])"
| "contains (c # s) t = (is_prefix t (c # s) \<or> contains s t)"

section \<open>Kinds (indexer/base/kind.go)\<close>

text \<open>
  \<^verbatim>\<open>type Kind int\<close>: a kind is any integer, the named kinds are the constants
  \<open>0 .. 20\<close> that \<^verbatim>\<open>iota\<close> numbers in the order of the declaration.
\<close>

type_synonym Kind = int

definition InvalidKind :: Kind where "InvalidKind = 0"
definition StringKind :: Kind where "StringKind = 1"
definition BytesKind :: Kind where "BytesKind = 2"
definition Int8Kind :: Kind where "Int8Kind = 3"
definition Uint8Kind :: Kind where "Uint8Kind = 4"
definition Int16Kind :: Kind where "Int16Kind = 5"
definition Uint16Kind :: Kind where "Uint16Kind = 6"
definition Int32Kind :: Kind where "Int32Kind = 7"
definition Uint32Kind :: Kind where "Uint32Kind = 8"
definition Int64Kind :: Kind where "Int64Kind = 9"
definition Uint64Kind :: Kind where "Uint64Kind = 10"
definition IntegerKind :: Kind where "IntegerKind = 11"
definition DecimalKind :: Kind where "DecimalKind = 12"
definition BoolKind :: Kind where "BoolKind = 13"
definition TimeKind :: Kind where "TimeKind = 14"
definition DurationKind :: Kind where "DurationKind = 15"
definition Float32Kind :: Kind where "Float32Kind = 16"
definition Float64Kind :: Kind where "Float64Kind = 17"
definition Bech32AddressKind :: Kind where "Bech32AddressKind = 18"
definition EnumKind :: Kind where "EnumKind = 19"
definition JSONKind :: Kind where "JSONKind = 20"

lemmas Kind_defs =
  InvalidKind_def StringKind_def BytesKind_def Int8Kind_def Uint8Kind_def Int16Kind_def
  Uint16Kind_def Int32Kind_def Uint32Kind_def Int64Kind_def Uint64Kind_def IntegerKind_def
  DecimalKind_def BoolKind_def TimeKind_def DurationKind_def Float32Kind_def Float64Kind_def
  Bech32AddressKind_def EnumKind_def JSONKind_def

subsection \<open>Go values and their dynamic types\<close>

text \<open>
  A value of type \<^verbatim>\<open>any\<close> carries its dynamic type. The types that kind.go names have a
  constructor each, and so has \<^verbatim>\<open>map[string]interface{}\<close>, which \<^verbatim>\<open>unmarshalConfig\<close> names;
  \<open>T_other n s\<close> is any other type, \<open>n\<close> its name as \<^verbatim>\<open>%T\<close> prints it and
  \<open>s\<close> whether its method set has \<^verbatim>\<open>String() string\<close>. A defined type such as
  \<^verbatim>\<open>type Denom string\<close> is not \<^verbatim>\<open>string\<close>: it is a \<open>T_other\<close>.
\<close>

datatype go_type =
    T_nil
  | T_string
  | T_bytes
  | T_int8
  | T_uint8
  | T_int16
  | T_uint16
  | T_int32
  | T_uint32
  | T_int64
  | T_uint64
  | T_float32
  | T_float64
  | T_bool
  | T_Time
  | T_Duration
  | T_RawMessage
  | T_map
  | T_other string bool

text \<open>
  The values. Floats are their IEEE 754 bit patterns, a \<^verbatim>\<open>time.Time\<close> is an instant in
  nanoseconds, a \<^verbatim>\<open>time.Duration\<close> is an \<^verbatim>\<open>int64\<close>, a map is its entries; a value of
  another type is
  known by the name of its type and by what its \<^verbatim>\<open>String\<close> method returns, when it has one.
\<close>

datatype go_value =
    V_nil
  | V_string string
  | V_bytes "8 word list"
  | V_int8 "8 word"
  | V_uint8 "8 word"
  | V_int16 "16 word"
  | V_uint16 "16 word"
  | V_int32 "32 word"
  | V_uint32 "32 word"
  | V_int64 "64 word"
  | V_uint64 "64 word"
  | V_float32 "32 word"
  | V_float64 "64 word"
  | V_bool bool
  | V_Time int
  | V_Duration "64 word"
  | V_RawMessage "8 word list"
  | V_map "(string \<times> go_value) list"
  | V_other string "string option"

fun type_of :: "go_value \<Rightarrow> go_type" where
  "type_of V_nil = T_nil"
| "type_of (V_string s) = T_string"
| "type_of (V_bytes b) = T_bytes"
| "type_of (V_int8 x) = T_int8"
| "type_of (V_uint8 x) = T_uint8"
| "type_of (V_int16 x) = T_int16"
| "type_of (V_uint16 x) = T_uint16"
| "type_of (V_int32 x) = T_int32"
| "type_of (V_uint32 x) = T_uint32"
| "type_of (V_int64 x) = T_int64"
| "type_of (V_uint64 x) = T_uint64"
| "type_of (V_float32 x) = T_float32"
| "type_of (V_float64 x) = T_float64"
| "type_of (V_bool b) = T_bool"
| "type_of (V_Time t) = T_Time"
| "type_of (V_Duration d) = T_Duration"
| "type_of (V_RawMessage b) = T_RawMessage"
| "type_of (V_map m) = T_map"
| "type_of (V_other n s) = T_other n (s \<noteq> None)"

text \<open>
  Which types implement \<^verbatim>\<open>fmt.Stringer\<close>. Of the types kind.go names, \<^verbatim>\<open>time.Time\<close> and
  \<^verbatim>\<open>time.Duration\<close> have a \<^verbatim>\<open>String\<close> method in the standard library; the predeclared
  types, \<^verbatim>\<open>[]byte\<close> and \<^verbatim>\<open>json.RawMessage\<close> have none.
\<close>

fun implements_Stringer :: "go_type \<Rightarrow> bool" where
  "implements_Stringer T_Time = True"
| "implements_Stringer T_Duration = True"
| "implements_Stringer (T_other n s) = s"
| "implements_Stringer T = False"

text \<open>The verb \<^verbatim>\<open>%T\<close>: the name of the dynamic type.\<close>

fun type_name :: "go_type \<Rightarrow> string" where
  "type_name T_nil = ''<nil>''"
| "type_name T_string = ''string''"
| "type_name T_bytes = ''[]uint8''"
| "type_name T_int8 = ''int8''"
| "type_name T_uint8 = ''uint8''"
| "type_name T_int16 = ''int16''"
| "type_name T_uint16 = ''uint16''"
| "type_name T_int32 = ''int32''"
| "type_name T_uint32 = ''uint32''"
| "type_name T_int64 = ''int64''"
| "type_name T_uint64 = ''uint64''"
| "type_name T_float32 = ''float32''"
| "type_name T_float64 = ''float64''"
| "type_name T_bool = ''bool''"
| "type_name T_Time = ''time.Time''"
| "type_name T_Duration = ''time.Duration''"
| "type_name T_RawMessage = ''json.RawMessage''"
| "type_name T_map = ''map[string]interface {}''"
| "type_name (T_other n s) = n"

definition fmt_T :: "go_value \<Rightarrow> string" where
  "fmt_T v = type_name (type_of v)"

text \<open>
  The type assertions \<^verbatim>\<open>_, ok := value.(T)\<close> for a concrete type \<open>T\<close> and
  \<^verbatim>\<open>_, ok := value.(fmt.Stringer)\<close>.
\<close>

definition is_a :: "go_type \<Rightarrow> go_value \<Rightarrow> bool" where
  "is_a T v = (type_of v = T)"

definition is_Stringer :: "go_value \<Rightarrow> bool" where
  "is_Stringer v = implements_Stringer (type_of v)"

subsection \<open>Kind.Validate\<close>

definition Validate :: "Kind \<Rightarrow> error option" where
  "Validate t =
     (if t \<le> InvalidKind then Some (''unknown type: '' @ fmt_d t)
      else if t > JSONKind then Some (''invalid type: '' @ fmt_d t)
      else None)"

subsection \<open>Kind.ValidateValueType\<close>

definition ValidateValueType :: "Kind \<Rightarrow> go_value \<Rightarrow> error option" where
  "ValidateValueType t v =
     (if t = StringKind then
        (if \<not> is_a T_string v \<and> \<not> is_Stringer v
         then Some (''expected string or type that implements fmt.Stringer, got '' @ fmt_T v)
         else None)
      else if t = BytesKind then
        (if \<not> is_a T_bytes v then Some (''expected []byte, got '' @ fmt_T v) else None)
      else if t = Int8Kind then
        (if \<not> is_a T_int8 v then Some (''expected int8, got '' @ fmt_T v) else None)
      else if t = Uint8Kind then
        (if \<not> is_a T_uint8 v then Some (''expected uint8, got '' @ fmt_T v) else None)
      else if t = Int16Kind then
        (if \<not> is_a T_int16 v then Some (''expected int16, got '' @ fmt_T v) else None)
      else if t = Uint16Kind then
        (if \<not> is_a T_uint16 v then Some (''expected uint16, got '' @ fmt_T v) else None)
      else if t = Int32Kind then
        (if \<not> is_a T_int32 v then Some (''expected int32, got '' @ fmt_T v) else None)
      else if t = Uint32Kind then
        (if \<not> is_a T_uint32 v then Some (''expected uint32, got '' @ fmt_T v) else None)
      else if t = Int64Kind then
        (if \<not> is_a T_int64 v then Some (''expected int64, got '' @ fmt_T v) else None)
      else if t = Uint64Kind then
        (if \<not> is_a T_uint64 v then Some (''expected uint64, got '' @ fmt_T v) else None)
      else if t = IntegerKind then
        (if \<not> is_a T_string v \<and> \<not> is_Stringer v \<and> \<not> is_a T_int64 v
         then Some (''expected string or type that implements fmt.Stringer, got '' @ fmt_T v)
         else None)
      else if t = DecimalKind then
        (if \<not> is_a T_string v \<and> \<not> is_Stringer v
         then Some (''expected string or type that implements fmt.Stringer, got '' @ fmt_T v)
         else None)
      else if t = BoolKind then
        (if \<not> is_a T_bool v then Some (''expected bool, got '' @ fmt_T v) else None)
      else if t = TimeKind then
        (if \<not> is_a T_Time v then Some (''expected time.Time, got '' @ fmt_T v) else None)
      else if t = DurationKind then
        (if \<not> is_a T_Duration v then Some (''expected time.Duration, got '' @ fmt_T v)
         else None)
      else if t = Float32Kind then
        (if \<not> is_a T_float32 v then Some (''expected float32, got '' @ fmt_T v) else None)
      else if t = Float64Kind then
        (if \<not> is_a T_float64 v then Some (''expected float64, got '' @ fmt_T v) else None)
      else if t = Bech32AddressKind then
        (if \<not> is_a T_string v \<and> \<not> is_a T_bytes v \<and> \<not> is_Stringer v
         then Some (''expected string or []byte, got '' @ fmt_T v)
         else None)
      else if t = EnumKind then
        (if \<not> is_a T_string v \<and> \<not> is_Stringer v
         then Some (''expected string or type that implements fmt.Stringer, got '' @ fmt_T v)
         else None)
      else if t = JSONKind then None
      else Some (''invalid type: '' @ fmt_d t))"

subsection \<open>KindForGoValue\<close>

text \<open>
  A type switch takes the first case that matches, from the top: a value whose type
  implements \<^verbatim>\<open>fmt.Stringer\<close> leaves by the first case whatever cases follow.
\<close>

definition KindForGoValue :: "go_value \<Rightarrow> Kind" where
  "KindForGoValue v =
     (if is_a T_string v \<or> is_Stringer v then StringKind
      else if is_a T_bytes v then BytesKind
      else if is_a T_int8 v then Int8Kind
      else if is_a T_uint8 v then Uint8Kind
      else if is_a T_int16 v then Int16Kind
      else if is_a T_uint16 v then Uint16Kind
      else if is_a T_int32 v then Int32Kind
      else if is_a T_uint32 v then Uint32Kind
      else if is_a T_int64 v then Int64Kind
      else if is_a T_uint64 v then Uint64Kind
      else if is_a T_float32 v then Float32Kind
      else if is_a T_float64 v then Float64Kind
      else if is_a T_bool v then BoolKind
      else if is_a T_Time v then TimeKind
      else if is_a T_Duration v then DurationKind
      else if is_a T_RawMessage v then JSONKind
      else JSONKind)"

subsection \<open>The acceptance sets the declaration documents\<close>

text \<open>
  The comments on the constants of kind.go say which Go types a value of each kind must
  have. \<open>documented_types k\<close> is that set, written from the comments; an integer that is
  no named kind documents nothing. (For \<open>JSONKind\<close> the comment asks for a value that
  marshals to JSON, which is no property of the type alone: every type is listed.)
\<close>

definition Stringers :: "go_type set" where
  "Stringers = {T. implements_Stringer T}"

definition documented_types :: "Kind \<Rightarrow> go_type set" where
  "documented_types k =
     (if k = StringKind then {T_string} \<union> Stringers
      else if k = BytesKind then {T_bytes}
      else if k = Int8Kind then {T_int8}
      else if k = Uint8Kind then {T_uint8}
      else if k = Int16Kind then {T_int16}
      else if k = Uint16Kind then {T_uint16}
      else if k = Int32Kind then {T_int32}
      else if k = Uint32Kind then {T_uint32}
      else if k = Int64Kind then {T_int64}
      else if k = Uint64Kind then {T_uint64}
      else if k = IntegerKind then {T_int64, T_string} \<union> Stringers
      else if k = DecimalKind then {T_string} \<union> Stringers
      else if k = BoolKind then {T_bool}
      else if k = TimeKind then {T_Time}
      else if k = DurationKind then {T_Duration}
      else if k = Float32Kind then {T_float32}
      else if k = Float64Kind then {T_float64}
      else if k = Bech32AddressKind then {T_string, T_bytes} \<union> Stringers
      else if k = EnumKind then {T_string} \<union> Stringers
      else if k = JSONKind then UNIV
      else {})"

section \<open>Block events, listeners and the world (schema/appdata)\<close>

text \<open>
  The Go types \<^verbatim>\<open>int64\<close> and \<^verbatim>\<open>uint64\<close> are 64-bit words, read by \<open>sint\<close> and
  by \<open>uint\<close>; \<open>+\<close> wraps around. The conversion \<^verbatim>\<open>int64(x)\<close> of a \<^verbatim>\<open>uint64\<close>
  keeps the 64 bits.
\<close>

type_synonym int64 = "64 word"
type_synonym uint64 = "64 word"

definition int64 :: "uint64 \<Rightarrow> int64" where
  "int64 x = x"

text \<open>
  \<^verbatim>\<open>appdata.StartBlockData\<close> and \<^verbatim>\<open>appdata.Listener\<close> are declared outside the files
  at hand. Of a block-start event the code reads the field \<^verbatim>\<open>Height\<close>, compared with a
  constant and converted by \<^verbatim>\<open>int64(data.Height)\<close>: an unsigned 64-bit height. Of a
  listener, a struct of optional callbacks, it reads and writes the slot
  \<^verbatim>\<open>StartBlock\<close>; the other slots are copied along untouched and are left out.
  A callback \<^verbatim>\<open>func(d) error\<close> acts on a state \<open>'s\<close> and returns its error with the
  new state; a \<^verbatim>\<open>nil\<close> slot is \<open>None\<close>.
\<close>

record StartBlockData =
  Height :: uint64

type_synonym ('d, 's) callback = "'d \<Rightarrow> 's \<Rightarrow> error option \<times> 's"

record 's Listener =
  StartBlock :: "(StartBlockData, 's) callback option"

text \<open>Opaque collaborators, known by a handle; each may be \<^verbatim>\<open>nil\<close> in the options.\<close>

datatype SyncSource = SyncSource_handle nat
datatype DecoderResolver = DecoderResolver_handle nat
datatype Context = Background | Context_handle nat

text \<open>
  A logger (\<^verbatim>\<open>logutil.Logger\<close>). \<open>ScopeableLogger i kvs ok\<close> also implements
  \<^verbatim>\<open>logutil.ScopeableLogger\<close>; its \<^verbatim>\<open>WithAsAny\<close> returns \<^verbatim>\<open>any\<close>, which is a
  \<^verbatim>\<open>Logger\<close> again (carrying the added key/values) when \<open>ok\<close>, and a value of
  another type otherwise.
\<close>

datatype Logger =
    NoopLogger
  | PlainLogger nat
  | ScopeableLogger nat "string list" bool

fun canScope :: "Logger \<Rightarrow> bool" where
  "canScope (ScopeableLogger i kvs ok) = True"
| "canScope l = False"

fun WithAsAny :: "Logger \<Rightarrow> string list \<Rightarrow> Logger option" where
  "WithAsAny (ScopeableLogger i kvs ok) keyVals =
     (if ok then Some (ScopeableLogger i (kvs @ keyVals) ok) else None)"
| "WithAsAny l keyVals = None"


text \<open>
  Modelled from the spec: \<^verbatim>\<open>ModuleFilterConfig\<close> (declared outside the files at hand) is
  an inclusion/exclusion specification over module names. A target's \<^verbatim>\<open>FilterConfig\<close>
  holds one in \<^verbatim>\<open>Modules\<close>; a target's \<^verbatim>\<open>Config\<close> has the type name looked up in the
  registry and the filter. \<^verbatim>\<open>decoding.SyncOptions\<close> carries the filter as a predicate on
  module names.
\<close>

record ModuleFilterConfig =
  Include :: "string list"
  Exclude :: "string list"

record FilterConfig =
  Modules :: ModuleFilterConfig

record Config =
  Type :: string
  Filter :: FilterConfig

record SyncOptions =
  ModuleFilter :: "(string \<Rightarrow> bool) option"

text \<open>
  The world. \<open>ext\<close> is the state of everything outside the manager (backends, sync
  source): the callbacks of an initializer's listener act on it. \<open>calls\<close> is the log of
  the calls that leave the manager's own code, oldest first. \<open>cells\<close> holds the
  variables \<^verbatim>\<open>initialized\<close> that the closures of \<^verbatim>\<open>addSyncAndSanityCheck\<close> capture, one
  per call, at the address \<open>next_cell\<close> gave it.
\<close>

datatype call =
    Info_logged Logger string "string list"
  | Init_called string
  | Sync_called nat "SyncSource option" "DecoderResolver option" SyncOptions
  | StartBlock_called StartBlockData

record 'e world =
  cells :: "nat \<Rightarrow> bool"
  next_cell :: nat
  calls :: "call list"
  ext :: 'e

section \<open>The manager's configuration and collaborators (package indexer)\<close>

record ManagerOptions =
  Config :: go_value
  Resolver :: "DecoderResolver option"
  SyncSource :: "SyncSource option"
  Logger :: "Logger option"
  Context :: "Context option"

text \<open>
  \<^verbatim>\<open>Target\<close> is a Go map; a \<^verbatim>\<open>range\<close> over it visits its entries once each in an
  order of its own. The list is the entries in the order of that visit.
\<close>

record ManagerConfig =
  Target :: "(string \<times> Config) list"

text \<open>
  \<^verbatim>\<open>InitParams\<close> has the fields \<^verbatim>\<open>Config\<close>, \<^verbatim>\<open>Context\<close> and \<^verbatim>\<open>Logger\<close>, and
  \<^verbatim>\<open>ManagerResult\<close> the fields \<^verbatim>\<open>Listener\<close> and \<^verbatim>\<open>ModuleFilter\<close>; the prefixes keep
  them apart from the fields of the same names in the other records.
\<close>

record InitParams =
  ip_Config :: Config
  ip_Context :: Context
  ip_Logger :: Logger

record 'e InitResult =
  Listener :: "'e Listener"
  LastBlockPersisted :: int64

record 'e ManagerResult =
  mr_Listener :: "'e world Listener"
  mr_ModuleFilter :: ModuleFilterConfig

text \<open>
  The functions the code calls that are not in the files at hand, as parameters:
  \<^verbatim>\<open>decoding.Sync\<close> (its first argument, the variable \<^verbatim>\<open>listener\<close> that the closure
  captured, is given by the address of the closure's cell and the incoming listener
  whose \<^verbatim>\<open>StartBlock\<close> slot the closure took over), \<^verbatim>\<open>ModuleFilterConfig.ToFunction\<close>,
  \<^verbatim>\<open>FilterConfig.Validate\<close> and \<^verbatim>\<open>FilterConfig.Apply\<close>, the registry of initializers,
  \<^verbatim>\<open>combineModuleFilters\<close>, \<^verbatim>\<open>ModuleFilterConfig.Apply\<close>, \<^verbatim>\<open>appdata.AsyncListenerMux\<close>,
  \<^verbatim>\<open>json.Marshal\<close> of a \<^verbatim>\<open>map[string]interface{}\<close> and \<^verbatim>\<open>json.Unmarshal\<close> into a
  \<^verbatim>\<open>ManagerConfig\<close>.
\<close>

record 'e env =
  decoding_Sync :: "nat \<Rightarrow> 'e Listener \<Rightarrow> SyncSource option \<Rightarrow> DecoderResolver option
                      \<Rightarrow> SyncOptions \<Rightarrow> 'e \<Rightarrow> error option \<times> 'e"
  ToFunction :: "ModuleFilterConfig \<Rightarrow> (string \<Rightarrow> bool) option"
  Filter_Validate :: "FilterConfig \<Rightarrow> error option"
  Filter_Apply :: "FilterConfig \<Rightarrow> 'e Listener \<Rightarrow> 'e Listener"
  indexerRegistry :: "string \<Rightarrow> (InitParams \<Rightarrow> 'e \<Rightarrow> ('e InitResult \<times> error option) \<times> 'e) option"
  combineModuleFilters :: "ModuleFilterConfig list \<Rightarrow> ModuleFilterConfig"
  ModuleFilter_Apply :: "ModuleFilterConfig \<Rightarrow> 'e world Listener \<Rightarrow> 'e world Listener"
  AsyncListenerMux :: "Context \<Rightarrow> 'e world Listener list \<Rightarrow> 'e world Listener"
  json_Marshal :: "(string \<times> go_value) list \<Rightarrow> error + 8 word list"
  json_Unmarshal :: "8 word list \<Rightarrow> ManagerConfig \<times> error option"

text \<open>The calls that leave the manager's code: each is logged, then acts on \<open>ext\<close>.\<close>

definition log_Info :: "Logger \<Rightarrow> string \<Rightarrow> string list \<Rightarrow> 'e world \<Rightarrow> 'e world" where
  "log_Info logger msg keyVals w = w\<lparr>calls := calls w @ [Info_logged logger msg keyVals]\<rparr>"

definition call_StartBlock :: "(StartBlockData, 'e) callback \<Rightarrow> (StartBlockData, 'e world) callback" where
  "call_StartBlock f data w =
     (case f data (ext w) of
        (r, e') \<Rightarrow> (r, w\<lparr>calls := calls w @ [StartBlock_called data], ext := e'\<rparr>))"

definition call_Sync :: "'e env \<Rightarrow> nat \<Rightarrow> 'e Listener \<Rightarrow> SyncSource option \<Rightarrow> DecoderResolver option
    \<Rightarrow> SyncOptions \<Rightarrow> 'e world \<Rightarrow> error option \<times> 'e world" where
  "call_Sync env a listener source resolver opts w =
     (case decoding_Sync env a listener source resolver opts (ext w) of
        (r, e') \<Rightarrow> (r, w\<lparr>calls := calls w @ [Sync_called a source resolver opts], ext := e'\<rparr>))"

section \<open>The sync guard (schema/indexer/sync.go)\<close>

subsection \<open>doSyncAndSanityCheck\<close>

text \<open>
  The parameter \<^verbatim>\<open>listener\<close> of the Go function, which it only hands on to
  \<^verbatim>\<open>decoding.Sync\<close>, is the pair of \<open>a\<close> and \<open>listener\<close> here. The error of line 46
  prints both heights with \<^verbatim>\<open>%d\<close>.
\<close>

definition out_of_sync_error :: "int64 \<Rightarrow> uint64 \<Rightarrow> error" where
  "out_of_sync_error lastBlockPersisted height =
     ''fatal error: indexer is out of sync, last block persisted: ''
     @ fmt_d (sint lastBlockPersisted)
     @ '', current block height: '' @ fmt_d (uint height)"

definition doSyncAndSanityCheck :: "'e env \<Rightarrow> int64 \<Rightarrow> StartBlockData \<Rightarrow> nat \<Rightarrow> 'e Listener
    \<Rightarrow> ManagerOptions \<Rightarrow> ModuleFilterConfig \<Rightarrow> 'e world \<Rightarrow> error option \<times> 'e world" where
  "doSyncAndSanityCheck env lastBlockPersisted data a listener mgrOpts moduleFilter w =
     (if lastBlockPersisted = 0 then
        (if Height data = 1 then (None, w)
         else call_Sync env a listener (SyncSource mgrOpts) (Resolver mgrOpts)
                \<lparr>ModuleFilter = ToFunction env moduleFilter\<rparr> w)
      else if lastBlockPersisted + 1 \<noteq> int64 (Height data) then
        (Some (out_of_sync_error lastBlockPersisted (Height data)), w)
      else (None, w))"

subsection \<open>addSyncAndSanityCheck\<close>

text \<open>
  The closure that line 19 stores in \<^verbatim>\<open>listener.StartBlock\<close>, with what it captures:
  the cell \<open>a\<close> of \<^verbatim>\<open>initialized\<close>, \<^verbatim>\<open>lastBlockPersisted\<close>, the incoming listener, its
  former slot \<^verbatim>\<open>startBlock\<close>, the options and the module filter. \<open>pass_on\<close> is its
  last step (lines 26 to 29): call the former slot unless it is \<^verbatim>\<open>nil\<close>.
\<close>

definition pass_on :: "(StartBlockData, 'e) callback option \<Rightarrow> (StartBlockData, 'e world) callback" where
  "pass_on startBlock data w =
     (case startBlock of
        Some f \<Rightarrow> call_StartBlock f data w
      | None \<Rightarrow> (None, w))"

definition guarded_StartBlock :: "'e env \<Rightarrow> nat \<Rightarrow> int64 \<Rightarrow> 'e Listener
    \<Rightarrow> (StartBlockData, 'e) callback option \<Rightarrow> ManagerOptions \<Rightarrow> ModuleFilterConfig
    \<Rightarrow> (StartBlockData, 'e world) callback" where
  "guarded_StartBlock env a lastBlockPersisted listener startBlock mgrOpts moduleFilter data w =
     (if \<not> cells w a then
        (case doSyncAndSanityCheck env lastBlockPersisted data a listener mgrOpts moduleFilter w of
           (Some err, w') \<Rightarrow> (Some err, w')
         | (None, w') \<Rightarrow> pass_on startBlock data (w'\<lparr>cells := (cells w')(a := True)\<rparr>))
      else pass_on startBlock data w)"

text \<open>
  A listener that is returned as it came keeps its callbacks; they act on \<open>ext\<close>.
\<close>

definition unchanged :: "'e Listener \<Rightarrow> 'e world Listener" where
  "unchanged listener = \<lparr>StartBlock = map_option call_StartBlock (StartBlock listener)\<rparr>"

definition addSyncAndSanityCheck :: "'e env \<Rightarrow> int64 \<Rightarrow> 'e Listener \<Rightarrow> ManagerOptions
    \<Rightarrow> ModuleFilterConfig \<Rightarrow> 'e world \<Rightarrow> 'e world Listener \<times> 'e world" where
  "addSyncAndSanityCheck env lastBlockPersisted listener mgrOpts moduleFilter w =
     (if lastBlockPersisted = - 1 then (unchanged listener, w)
      else
        (let startBlock = StartBlock listener;
             a = next_cell w;
             w' = w\<lparr>cells := (cells w)(a := False), next_cell := Suc a\<rparr>
         in (\<lparr>StartBlock = Some (guarded_StartBlock env a lastBlockPersisted listener
                                  startBlock mgrOpts moduleFilter)\<rparr>, w')))"

text \<open>
  The producer delivers block-start events to a \<^verbatim>\<open>StartBlock\<close> slot one after the
  other; a \<^verbatim>\<open>nil\<close> slot is skipped. \<open>deliver\<close> collects what each delivery returns.
\<close>

fun deliver :: "(StartBlockData, 's) callback option \<Rightarrow> StartBlockData list \<Rightarrow> 's
    \<Rightarrow> error option list \<times> 's" where
  "deliver cb [] s = ([], s)"
| "deliver cb (d # ds) s =
     (case (case cb of Some f \<Rightarrow> f d s | None \<Rightarrow> (None, s)) of
        (r, s') \<Rightarrow> (case deliver cb ds s' of (rs, s'') \<Rightarrow> (r # rs, s'')))"

definition Sync_calls :: "call list \<Rightarrow> call list" where
  "Sync_calls cs = filter (\<lambda>c. case c of Sync_called a s r opts \<Rightarrow> True | _ \<Rightarrow> False) cs"

text \<open>
  Modelled from the spec: the caller of a target's listener (\<^verbatim>\<open>appdata.AsyncListenerMux\<close>
  and the worker it gives each target, declared outside the files at hand). An error that
  a target's callback returns is fatal for the pipeline, and after it no further event is
  dispatched to that target (sections 4.4, 5 and 8): the delivery of block starts to a
  target stops at the first error.
\<close>

fun deliver_stop :: "(StartBlockData, 's) callback option \<Rightarrow> StartBlockData list \<Rightarrow> 's
    \<Rightarrow> error option list \<times> 's" where
  "deliver_stop cb [] s = ([], s)"
| "deliver_stop cb (d # ds) s =
     (case (case cb of Some f \<Rightarrow> f d s | None \<Rightarrow> (None, s)) of
        (Some err, s') \<Rightarrow> ([Some err], s')
      | (None, s') \<Rightarrow> (case deliver_stop cb ds s' of (rs, s'') \<Rightarrow> (None # rs, s'')))"

section \<open>The manager (package indexer, StartManager)\<close>

text \<open>
  A call of a Go function ends by returning or by a run-time panic.
\<close>

datatype 'a outcome = Returns 'a | Panics string

text \<open>
  The verb \<^verbatim>\<open>%q\<close>: the text between double quotes, a double quote and a backslash
  escaped by a backslash (the escapes of unprintable characters are not expanded).
\<close>

definition fmt_q :: "string \<Rightarrow> string" where
  "fmt_q s =
     CHR 0x22 # concat (map (\<lambda>c. if c = CHR 0x22 \<or> c = CHR 0x5C then [CHR 0x5C, c] else [c]) s)
     @ [CHR 0x22]"

subsection \<open>unmarshalConfig\<close>

text \<open>The two results of \<^verbatim>\<open>(*ManagerConfig, error)\<close>; \<open>None\<close> is \<^verbatim>\<open>nil\<close> in both.\<close>

definition unmarshalConfig :: "'e env \<Rightarrow> go_value \<Rightarrow> ManagerConfig option \<times> error option" where
  "unmarshalConfig env cfg =
     (case cfg of
        V_map m \<Rightarrow>
          (case json_Marshal env m of
             Inl err \<Rightarrow> (None, Some err)
           | Inr jsonBz \<Rightarrow> (case json_Unmarshal env jsonBz of (res, err) \<Rightarrow> (Some res, err)))
      | V_RawMessage jsonBz \<Rightarrow> (case json_Unmarshal env jsonBz of (res, err) \<Rightarrow> (Some res, err))
      | _ \<Rightarrow> (None, Some (''can't convert '' @ fmt_T cfg @ '' to indexer.ManagerConfig'')))"

subsection \<open>StartManager\<close>

definition zero_Listener :: "'s Listener" where
  "zero_Listener = \<lparr>StartBlock = None\<rparr>"

definition zero_ManagerResult :: "'e ManagerResult" where
  "zero_ManagerResult =
     \<lparr>mr_Listener = zero_Listener, mr_ModuleFilter = \<lparr>Include = [], Exclude = []\<rparr>\<rparr>"

definition call_init :: "string \<Rightarrow> (InitParams \<Rightarrow> 'e \<Rightarrow> ('e InitResult \<times> error option) \<times> 'e)
    \<Rightarrow> InitParams \<Rightarrow> 'e world \<Rightarrow> ('e InitResult \<times> error option) \<times> 'e world" where
  "call_init name init params w =
     (case init params (ext w) of
        (r, e') \<Rightarrow> (r, w\<lparr>calls := calls w @ [Init_called name], ext := e'\<rparr>))"

text \<open>
  Lines 84 to 87: the logger handed to the initializer. The assertion
  \<^verbatim>\<open>.(logutil.Logger)\<close> has no second result: it panics when what \<^verbatim>\<open>WithAsAny\<close>
  returned is no \<^verbatim>\<open>Logger\<close>.
\<close>

definition childLogger_for :: "Logger \<Rightarrow> string \<Rightarrow> Logger outcome" where
  "childLogger_for logger targetName =
     (if canScope logger then
        (case WithAsAny logger [''indexer'', targetName] of
           Some l \<Rightarrow> Returns l
         | None \<Rightarrow> Panics ''interface conversion: interface {} is not logutil.Logger'')
      else Returns logger)"

text \<open>Lines 98 and 99: the filter is applied to the initializer's listener, the guard to the result.\<close>

definition wrap_target :: "'e env \<Rightarrow> ManagerOptions \<Rightarrow> Config \<Rightarrow> 'e InitResult \<Rightarrow> 'e world
    \<Rightarrow> 'e world Listener \<times> 'e world" where
  "wrap_target env opts targetCfg initRes w =
     (let listener = Filter_Apply env (Filter targetCfg) (Listener initRes)
      in addSyncAndSanityCheck env (LastBlockPersisted initRes) listener opts
           (Modules (Filter targetCfg)) w)"

text \<open>Lines 105 to 116: what follows the loop.\<close>

definition finish :: "'e env \<Rightarrow> Context \<Rightarrow> 'e world Listener list \<Rightarrow> ModuleFilterConfig list
    \<Rightarrow> 'e ManagerResult \<times> error option" where
  "finish env ctx listeners allModuleFilters =
     (let rootListener = AsyncListenerMux env ctx listeners;
          rootModuleFilter = combineModuleFilters env allModuleFilters;
          rootListener' = ModuleFilter_Apply env rootModuleFilter rootListener
      in (\<lparr>mr_Listener = rootListener', mr_ModuleFilter = rootModuleFilter\<rparr>, None))"

text \<open>
  The loop of lines 72 to 103 over the targets still to visit, with the lists built so
  far, followed by \<open>finish\<close>. Each \<^verbatim>\<open>return\<close> in its body leaves \<^verbatim>\<open>StartManager\<close>.
\<close>

fun start_targets :: "'e env \<Rightarrow> ManagerOptions \<Rightarrow> Logger \<Rightarrow> Context \<Rightarrow> (string \<times> Config) list
    \<Rightarrow> 'e world Listener list \<Rightarrow> ModuleFilterConfig list \<Rightarrow> 'e world
    \<Rightarrow> ('e ManagerResult \<times> error option) outcome \<times> 'e world" where
  "start_targets env opts logger ctx [] listeners allModuleFilters w =
     (Returns (finish env ctx listeners allModuleFilters), w)"
| "start_targets env opts logger ctx ((targetName, targetCfg) # rest) listeners allModuleFilters w =
     (case indexerRegistry env (Type targetCfg) of
        None \<Rightarrow>
          (Returns (zero_ManagerResult,
             Some (''indexer type '' @ fmt_q (Type targetCfg) @ '' not found'')), w)
      | Some init \<Rightarrow>
          (let w1 = log_Info logger ''Starting indexer''
                      [''target'', targetName, ''type'', Type targetCfg] w
           in case Filter_Validate env (Filter targetCfg) of
                Some err \<Rightarrow>
                  (Returns (zero_ManagerResult,
                     Some (''invalid filter for target '' @ fmt_q targetName @ '': '' @ err)), w1)
              | None \<Rightarrow>
                  (case childLogger_for logger targetName of
                     Panics p \<Rightarrow> (Panics p, w1)
                   | Returns childLogger \<Rightarrow>
                       (case call_init (Type targetCfg) init
                               \<lparr>ip_Config = targetCfg, ip_Context = ctx, ip_Logger = childLogger\<rparr> w1 of
                          ((initRes, Some err), w2) \<Rightarrow> (Returns (zero_ManagerResult, Some err), w2)
                        | ((initRes, None), w2) \<Rightarrow>
                            (case wrap_target env opts targetCfg initRes w2 of
                               (listener, w3) \<Rightarrow>
                                 start_targets env opts logger ctx rest (listeners @ [listener])
                                   (allModuleFilters @ [Modules (Filter targetCfg)]) w3)))))"

definition StartManager :: "'e env \<Rightarrow> ManagerOptions \<Rightarrow> 'e world
    \<Rightarrow> ('e ManagerResult \<times> error option) outcome \<times> 'e world" where
  "StartManager env opts w =
     (let logger = (case Logger opts of None \<Rightarrow> NoopLogger | Some l \<Rightarrow> l);
          w0 = log_Info logger ''Starting indexer manager'' [] w
      in case unmarshalConfig env (Config opts) of
           (cfg, Some err) \<Rightarrow> (Returns (zero_ManagerResult, Some err), w0)
         | (None, None) \<Rightarrow> (Panics ''invalid memory address or nil pointer dereference'', w0)
         | (Some cfg, None) \<Rightarrow>
             (let ctx = (case Context opts of None \<Rightarrow> Background | Some c \<Rightarrow> c)
              in start_targets env opts logger ctx (Target cfg) [] [] w0))"

section \<open>Concrete inputs\<close>

text \<open>
  The inputs at which the theorems below are instantiated. The outside world is a log
  of who saw which block-start height: the backend's own \<^verbatim>\<open>StartBlock\<close>, and a
  filter layer that notes each block start it is handed before passing it on.
\<close>

datatype seen = Backend_saw uint64 | Filter_saw uint64

definition recording_backend :: "seen list Listener" where
  "recording_backend = \<lparr>StartBlock = Some (\<lambda>d e. (None, e @ [Backend_saw (Height d)]))\<rparr>"

definition noting_filter :: "seen list Listener \<Rightarrow> seen list Listener" where
  "noting_filter l =
     \<lparr>StartBlock = map_option (\<lambda>f d e. f d (e @ [Filter_saw (Height d)])) (StartBlock l)\<rparr>"

definition recorder_init :: "InitParams \<Rightarrow> seen list \<Rightarrow> (seen list InitResult \<times> error option) \<times> seen list" where
  "recorder_init params e = ((\<lparr>Listener = recording_backend, LastBlockPersisted = 5\<rparr>, None), e)"

definition broken_init :: "InitParams \<Rightarrow> seen list \<Rightarrow> (seen list InitResult \<times> error option) \<times> seen list" where
  "broken_init params e =
     ((\<lparr>Listener = zero_Listener, LastBlockPersisted = 0\<rparr>, Some ''connection refused''), e)"

definition target_of_type :: "string \<Rightarrow> Config" where
  "target_of_type ty = \<lparr>Type = ty, Filter = \<lparr>Modules = \<lparr>Include = [], Exclude = []\<rparr>\<rparr>\<rparr>"

definition one_target :: "string \<Rightarrow> ManagerConfig" where
  "one_target ty = \<lparr>Target = [(''t1'', target_of_type ty)]\<rparr>"

text \<open>
  The sample collaborators: a sync that does nothing or (with \<open>sync_ok\<close> false) fails, a
  filter that is valid unless it both includes and excludes, a registry of two types, a
  multiplexer of at most one listener, and a JSON decoder that rejects the empty document
  and reads any other as a configuration of one target, whose type its first byte names.
\<close>

definition sample_env :: "bool \<Rightarrow> seen list env" where
  "sample_env sync_ok =
     \<lparr>decoding_Sync = (\<lambda>a l src res so e. (if sync_ok then None else Some ''sync failed'', e)),
      ToFunction = (\<lambda>mf. if Include mf = [] then None else Some (\<lambda>m. m \<in> set (Include mf))),
      Filter_Validate = (\<lambda>f. if Include (Modules f) \<noteq> [] \<and> Exclude (Modules f) \<noteq> []
                             then Some ''cannot set both include and exclude'' else None),
      Filter_Apply = (\<lambda>f l. noting_filter l),
      indexerRegistry = [''recorder'' \<mapsto> recorder_init, ''broken'' \<mapsto> broken_init],
      combineModuleFilters = (\<lambda>fs. \<lparr>Include = concat (map Include fs), Exclude = []\<rparr>),
      ModuleFilter_Apply = (\<lambda>f l. l),
      AsyncListenerMux = (\<lambda>ctx ls. case ls of [] \<Rightarrow> zero_Listener | l # ls' \<Rightarrow> l),
      json_Marshal = (\<lambda>m. Inl ''unsupported value''),
      json_Unmarshal =
        (\<lambda>bz. case bz of
                [] \<Rightarrow> (\<lparr>Target = []\<rparr>, Some ''unexpected end of JSON input'')
              | b # bs \<Rightarrow>
                  (one_target (if b = 1 then ''recorder'' else if b = 2 then ''broken''
                               else ''nosuch''), None))\<rparr>"

definition sample_options :: "8 word list \<Rightarrow> Logger option \<Rightarrow> ManagerOptions" where
  "sample_options doc lg =
     \<lparr>Config = V_RawMessage doc, Resolver = Some (DecoderResolver_handle 0),
      SyncSource = Some (SyncSource_handle 0), Logger = lg, Context = None\<rparr>"

definition empty_world :: "seen list world" where
  "empty_world = \<lparr>cells = (\<lambda>a. False), next_cell = 0, calls = [], ext = []\<rparr>"

definition sample_manager :: "8 word list \<Rightarrow> Logger option
    \<Rightarrow> (seen list ManagerResult \<times> error option) outcome \<times> seen list world" where
  "sample_manager doc lg = StartManager (sample_env True) (sample_options doc lg) empty_world"

text \<open>
  A guard around the recording backend, made in the empty world for a target that admits
  the module \<^verbatim>\<open>bank\<close>: the guarded listener and the world that holds its cell.
\<close>

definition bank_filter :: ModuleFilterConfig where
  "bank_filter = \<lparr>Include = [''bank''], Exclude = []\<rparr>"

definition sample_guard :: "bool \<Rightarrow> int64 \<Rightarrow> seen list world Listener \<times> seen list world" where
  "sample_guard sync_ok lbp =
     addSyncAndSanityCheck (sample_env sync_ok) lbp recording_backend
       (sample_options [1] None) bank_filter empty_world"

section \<open>Auxiliary facts\<close>

subsection \<open>Texts\<close>

lemma is_prefix_append: "is_prefix t (t @ s)"
  by (induction t) auto

lemma contains_here: "contains (t @ s) t"
  by (cases "t @ s") (auto simp: is_prefix_append dest: sym)

lemma contains_later: "contains s t \<Longrightarrow> contains (p @ s) t"
  by (induction p) auto

lemma contains_mid: "contains (p @ t @ s) t"
  by (simp add: contains_here contains_later)

lemma contains_end: "contains (p @ t) t"
  using contains_mid [of p t "[]"] by simp

lemma out_of_sync_error_contains:
  "contains (out_of_sync_error lbp h) (fmt_d (sint lbp))"
  "contains (out_of_sync_error lbp h) (fmt_d (uint h))"
  unfolding out_of_sync_error_def
  by (rule contains_mid) (intro contains_later contains_end)

subsection \<open>64-bit heights\<close>

lemma sint_pos_uint:
  fixes x :: "64 word"
  assumes "0 \<le> sint x"
  shows "sint x = uint x" and "uint x < 2 ^ 63"
proof -
  have s: "sint x = signed_take_bit 63 (uint x)"
    by (simp add: sint_uint)
  show lt: "uint x < 2 ^ 63"
  proof (rule ccontr)
    assume "\<not> uint x < 2 ^ 63"
    then have "signed_take_bit 63 (uint x) \<le> uint x - 2 ^ Suc 63"
      by (intro signed_take_bit_int_less_eq) simp
    moreover have "uint x < 2 ^ 64"
      using uint_lt2p [of x] by simp
    ultimately show False
      using assms s by simp
  qed
  have "signed_take_bit 63 (uint x) = uint x"
  proof (rule signed_take_bit_int_eq_self)
    show "- (2 ^ 63) \<le> uint x"
      by (rule order_trans [of _ 0]) simp_all
    show "uint x < 2 ^ 63"
      by (rule lt)
  qed
  then show "sint x = uint x"
    using s by simp
qed

lemma int64_succ_eq:
  fixes lbp H :: "64 word"
  assumes "1 \<le> sint lbp"
  shows "(lbp + 1 = int64 H) = (sint lbp + 1 = uint H)"
proof -
  have su: "sint lbp = uint lbp" and lt: "uint lbp < 2 ^ 63"
    using assms sint_pos_uint [of lbp] by simp_all
  have "uint (lbp + 1) = (uint lbp + 1) mod 2 ^ 64"
    by (simp add: uint_word_ariths)
  with lt have "uint (lbp + 1) = uint lbp + 1"
    by simp
  then show ?thesis
    by (simp add: int64_def su word_uint_eq_iff)
qed

lemma sint_ge_1_ne:
  fixes lbp :: "64 word"
  assumes "1 \<le> sint lbp"
  shows "lbp \<noteq> - 1" and "lbp \<noteq> 0"
  using assms by auto

subsection \<open>The guard\<close>

lemma addSyncAndSanityCheck_closure:
  assumes "lbp \<noteq> - 1"
  shows "addSyncAndSanityCheck env lbp l opts mf w0 =
    (\<lparr>StartBlock = Some (guarded_StartBlock env (next_cell w0) lbp l (StartBlock l) opts mf)\<rparr>,
     w0\<lparr>cells := (cells w0)(next_cell w0 := False), next_cell := Suc (next_cell w0)\<rparr>)"
  using assms by (simp add: addSyncAndSanityCheck_def Let_def)

lemma deliver_Cons:
  "deliver (Some f) (d # ds) w =
     (fst (f d w) # fst (deliver (Some f) ds (snd (f d w))),
      snd (deliver (Some f) ds (snd (f d w))))"
  by (simp split: prod.splits)

lemma deliver_one:
  "deliver (Some g) [d] w = (case g d w of (r, w') \<Rightarrow> ([r], w'))"
  by (simp split: prod.splits)

lemma deliver_unchanged:
  "deliver (StartBlock (unchanged l)) [d] w = (case pass_on (StartBlock l) d w of (r, w') \<Rightarrow> ([r], w'))"
  by (cases "StartBlock l") (simp_all add: unchanged_def pass_on_def split: prod.splits)

lemma snd_single: "snd (case p of (r, w) \<Rightarrow> ([r], w)) = snd p"
  by (cases p) simp

lemma pass_on_calls:
  "calls (snd (pass_on sb d w)) = calls w @ (if sb = None then [] else [StartBlock_called d])"
  by (cases sb) (simp_all add: pass_on_def call_StartBlock_def split: prod.splits)

lemma pass_on_cells: "cells (snd (pass_on sb d w)) = cells w"
  by (cases sb) (simp_all add: pass_on_def call_StartBlock_def split: prod.splits)

lemma pass_on_Sync_calls: "Sync_calls (calls (snd (pass_on sb d w))) = Sync_calls (calls w)"
  by (simp add: pass_on_calls Sync_calls_def)

lemma call_Sync_result:
  "call_Sync env a l src res so w =
     (fst (decoding_Sync env a l src res so (ext w)),
      w\<lparr>calls := calls w @ [Sync_called a src res so],
        ext := snd (decoding_Sync env a l src res so (ext w))\<rparr>)"
  by (simp add: call_Sync_def split: prod.splits)

lemma out_of_sync_check:
  assumes "1 \<le> sint lbp" and "sint lbp + 1 \<noteq> uint (Height d)"
  shows "doSyncAndSanityCheck env lbp d a l opts mf w = (Some (out_of_sync_error lbp (Height d)), w)"
  using assms sint_ge_1_ne [of lbp] int64_succ_eq [of lbp "Height d"]
  by (simp add: doSyncAndSanityCheck_def)

lemma in_sync_check:
  assumes "lbp = 0 \<and> Height d = 1 \<or> 1 \<le> sint lbp \<and> sint lbp + 1 = uint (Height d)"
  shows "doSyncAndSanityCheck env lbp d a l opts mf w = (None, w)"
  using assms
proof
  assume "lbp = 0 \<and> Height d = 1"
  then show ?thesis by (simp add: doSyncAndSanityCheck_def)
next
  assume a: "1 \<le> sint lbp \<and> sint lbp + 1 = uint (Height d)"
  then have "lbp \<noteq> 0" "lbp + 1 = int64 (Height d)"
    using sint_ge_1_ne [of lbp] int64_succ_eq [of lbp "Height d"] by simp_all
  then show ?thesis by (simp add: doSyncAndSanityCheck_def)
qed

lemma catch_up_check:
  assumes "Height d \<noteq> 1"
  shows "doSyncAndSanityCheck env 0 d a l opts mf w =
    call_Sync env a l (SyncSource opts) (Resolver opts) \<lparr>ModuleFilter = ToFunction env mf\<rparr> w"
  using assms by (simp add: doSyncAndSanityCheck_def)

lemma deliver_checked:
  assumes "cells w a"
  shows "deliver (Some (guarded_StartBlock env a lbp l sb opts mf)) ds w
         = deliver (Some (pass_on sb)) ds w"
  using assms
proof (induction ds arbitrary: w)
  case Nil
  then show ?case by simp
next
  case (Cons d ds)
  have step: "guarded_StartBlock env a lbp l sb opts mf d w = pass_on sb d w"
    using Cons.prems by (simp add: guarded_StartBlock_def)
  have "cells (snd (pass_on sb d w)) a"
    using Cons.prems by (simp add: pass_on_cells)
  then have "deliver (Some (guarded_StartBlock env a lbp l sb opts mf)) ds (snd (pass_on sb d w))
         = deliver (Some (pass_on sb)) ds (snd (pass_on sb d w))"
    by (rule Cons.IH)
  then show ?case
    by (simp add: step deliver_Cons del: deliver.simps)
qed

lemma first_delivery:
  assumes "lbp \<noteq> - 1" and "\<not> cells w (next_cell w0)"
  shows "deliver (StartBlock (fst (addSyncAndSanityCheck env lbp l opts mf w0))) [d] w =
     (case doSyncAndSanityCheck env lbp d (next_cell w0) l opts mf w of
        (Some err, w') \<Rightarrow> ([Some err], w')
      | (None, w') \<Rightarrow>
          (case pass_on (StartBlock l) d (w'\<lparr>cells := (cells w')(next_cell w0 := True)\<rparr>) of
             (r, w'') \<Rightarrow> ([r], w'')))"
proof -
  obtain r w' where c: "doSyncAndSanityCheck env lbp d (next_cell w0) l opts mf w = (r, w')"
    by (cases "doSyncAndSanityCheck env lbp d (next_cell w0) l opts mf w")
  show ?thesis
    using assms(2)
    by (cases r) (simp_all add: addSyncAndSanityCheck_closure [OF assms(1)] guarded_StartBlock_def c)
qed

lemma later_deliveries:
  assumes "lbp \<noteq> - 1" and "cells w (next_cell w0)"
  shows "deliver (StartBlock (fst (addSyncAndSanityCheck env lbp l opts mf w0))) ds w =
         deliver (Some (pass_on (StartBlock l))) ds w"
  using assms(2) by (simp add: addSyncAndSanityCheck_closure [OF assms(1)] deliver_checked)

lemma deliver_stop_Cons:
  "deliver_stop (Some f) (d # ds) w =
     (case fst (f d w) of
        Some err \<Rightarrow> ([Some err], snd (f d w))
      | None \<Rightarrow> (None # fst (deliver_stop (Some f) ds (snd (f d w))),
                 snd (deliver_stop (Some f) ds (snd (f d w)))))"
  by (simp split: prod.splits option.splits)

lemma deliver_stop_unchanged:
  "deliver_stop (StartBlock (unchanged l)) ds w = deliver_stop (Some (pass_on (StartBlock l))) ds w"
proof (cases "StartBlock l")
  case None
  show ?thesis
    by (induction ds arbitrary: w) (simp_all add: None unchanged_def pass_on_def)
next
  case (Some f)
  have "pass_on (Some f) = call_StartBlock f"
    by (simp add: pass_on_def fun_eq_iff)
  then show ?thesis
    by (simp add: Some unchanged_def)
qed

lemma deliver_stop_checked:
  assumes "cells w a"
  shows "deliver_stop (Some (guarded_StartBlock env a lbp l sb opts mf)) ds w
         = deliver_stop (Some (pass_on sb)) ds w"
  using assms
proof (induction ds arbitrary: w)
  case Nil
  then show ?case by simp
next
  case (Cons d ds)
  have step: "guarded_StartBlock env a lbp l sb opts mf d w = pass_on sb d w"
    using Cons.prems by (simp add: guarded_StartBlock_def)
  have "cells (snd (pass_on sb d w)) a"
    using Cons.prems by (simp add: pass_on_cells)
  then have "deliver_stop (Some (guarded_StartBlock env a lbp l sb opts mf)) ds (snd (pass_on sb d w))
         = deliver_stop (Some (pass_on sb)) ds (snd (pass_on sb d w))"
    by (rule Cons.IH)
  then show ?case
    by (simp add: step deliver_stop_Cons del: deliver_stop.simps split: option.splits)
qed

lemma deliver_stop_pass_on_Sync_calls:
  "Sync_calls (calls (snd (deliver_stop (Some (pass_on sb)) ds w))) = Sync_calls (calls w)"
proof (induction ds arbitrary: w)
  case Nil
  then show ?case by simp
next
  case (Cons d ds)
  have "Sync_calls (calls (snd (deliver_stop (Some (pass_on sb)) ds (snd (pass_on sb d w)))))
        = Sync_calls (calls (snd (pass_on sb d w)))"
    by (rule Cons.IH)
  then show ?case
    by (simp add: pass_on_Sync_calls deliver_stop_Cons del: deliver_stop.simps split: option.splits)
qed

lemma check_Sync_calls:
  "Sync_calls (calls (snd (doSyncAndSanityCheck env lbp d a l opts mf w))) =
     Sync_calls (calls w)
     @ (if lbp = 0 \<and> Height d \<noteq> 1
        then [Sync_called a (SyncSource opts) (Resolver opts) \<lparr>ModuleFilter = ToFunction env mf\<rparr>]
        else [])"
  by (simp add: doSyncAndSanityCheck_def call_Sync_result Sync_calls_def)

lemma first_delivery_stop:
  assumes "lbp \<noteq> - 1" and "\<not> cells w (next_cell w0)"
  shows "deliver_stop (StartBlock (fst (addSyncAndSanityCheck env lbp l opts mf w0))) (d # ds) w =
     (case doSyncAndSanityCheck env lbp d (next_cell w0) l opts mf w of
        (Some err, w') \<Rightarrow> ([Some err], w')
      | (None, w') \<Rightarrow>
          deliver_stop (Some (pass_on (StartBlock l))) (d # ds)
            (w'\<lparr>cells := (cells w')(next_cell w0 := True)\<rparr>))"
proof -
  let ?a = "next_cell w0"
  let ?g = "guarded_StartBlock env ?a lbp l (StartBlock l) opts mf"
  obtain r w' where c: "doSyncAndSanityCheck env lbp d ?a l opts mf w = (r, w')"
    by (cases "doSyncAndSanityCheck env lbp d ?a l opts mf w")
  have g: "StartBlock (fst (addSyncAndSanityCheck env lbp l opts mf w0)) = Some ?g"
    using assms(1) by (simp add: addSyncAndSanityCheck_closure)
  show ?thesis
  proof (cases r)
    case (Some err)
    then show ?thesis
      using assms(2) by (simp add: g guarded_StartBlock_def c)
  next
    case None
    let ?w = "w'\<lparr>cells := (cells w')(?a := True)\<rparr>"
    have step: "?g d w = pass_on (StartBlock l) d ?w"
      using assms(2) None by (simp add: guarded_StartBlock_def c)
    have "cells (snd (pass_on (StartBlock l) d ?w)) ?a"
      by (simp add: pass_on_cells)
    then have "deliver_stop (Some ?g) ds (snd (pass_on (StartBlock l) d ?w))
         = deliver_stop (Some (pass_on (StartBlock l))) ds (snd (pass_on (StartBlock l) d ?w))"
      by (rule deliver_stop_checked)
    then show ?thesis
      unfolding g
      by (simp add: step c None deliver_stop_Cons del: deliver_stop.simps split: option.splits)
  qed
qed

subsection \<open>The manager\<close>

lemma wrap_target_eq:
  "wrap_target env opts cfg initRes w0 =
     addSyncAndSanityCheck env (LastBlockPersisted initRes)
       (Filter_Apply env (Filter cfg) (Listener initRes)) opts (Modules (Filter cfg)) w0"
  by (simp add: wrap_target_def)


lemma start_targets_step:
  assumes "indexerRegistry env (Type cfg) = Some init"
    and "Filter_Validate env (Filter cfg) = None"
    and "childLogger_for logger name = Returns cl"
    and "call_init (Type cfg) init \<lparr>ip_Config = cfg, ip_Context = ctx, ip_Logger = cl\<rparr>
           (log_Info logger ''Starting indexer'' [''target'', name, ''type'', Type cfg] w)
         = ((initRes, None), w2)"
  shows "start_targets env opts logger ctx ((name, cfg) # rest) ls fs w =
         start_targets env opts logger ctx rest
           (ls @ [fst (wrap_target env opts cfg initRes w2)]) (fs @ [Modules (Filter cfg)])
           (snd (wrap_target env opts cfg initRes w2))"
  using assms by (simp add: Let_def split: prod.splits)











subsection \<open>The kinds\<close>

lemma named_kind_cases:
  "InvalidKind < k \<Longrightarrow> k \<le> JSONKind \<Longrightarrow>
   k = StringKind \<or> k = BytesKind \<or> k = Int8Kind \<or> k = Uint8Kind \<or> k = Int16Kind
   \<or> k = Uint16Kind \<or> k = Int32Kind \<or> k = Uint32Kind \<or> k = Int64Kind \<or> k = Uint64Kind
   \<or> k = IntegerKind \<or> k = DecimalKind \<or> k = BoolKind \<or> k = TimeKind \<or> k = DurationKind
   \<or> k = Float32Kind \<or> k = Float64Kind \<or> k = Bech32AddressKind \<or> k = EnumKind
   \<or> k = JSONKind"
  unfolding Kind_defs by arith

lemma ValidateValueType_named:
  assumes "InvalidKind < k" "k \<le> JSONKind"
  shows "(ValidateValueType k v = None) = (type_of v \<in> documented_types k)"
  using named_kind_cases [OF assms]
  by (elim disjE)
    (simp_all add: ValidateValueType_def documented_types_def Stringers_def is_a_def
      is_Stringer_def Kind_defs)

lemma ValidateValueType_unnamed:
  assumes "\<not> (InvalidKind < k \<and> k \<le> JSONKind)"
  shows "ValidateValueType k v = Some (''invalid type: '' @ fmt_d k)" and "documented_types k = {}"
proof -
  have ne: "k \<noteq> 1" "k \<noteq> 2" "k \<noteq> 3" "k \<noteq> 4" "k \<noteq> 5" "k \<noteq> 6" "k \<noteq> 7" "k \<noteq> 8" "k \<noteq> 9"
    "k \<noteq> 10" "k \<noteq> 11" "k \<noteq> 12" "k \<noteq> 13" "k \<noteq> 14" "k \<noteq> 15" "k \<noteq> 16" "k \<noteq> 17"
    "k \<noteq> 18" "k \<noteq> 19" "k \<noteq> 20"
    using assms unfolding Kind_defs by arith+
  show "ValidateValueType k v = Some (''invalid type: '' @ fmt_d k)"
    unfolding ValidateValueType_def Kind_defs using ne by simp
  show "documented_types k = {}"
    unfolding documented_types_def Kind_defs using ne by simp
qed

lemma ValidateValueType_None_iff:
  "(ValidateValueType k v = None) = (type_of v \<in> documented_types k)"
proof (cases "InvalidKind < k \<and> k \<le> JSONKind")
  case True
  then show ?thesis by (simp add: ValidateValueType_named)
next
  case False
  then show ?thesis by (simp add: ValidateValueType_unnamed)
qed

lemma ValidateValueType_type_only:
  assumes "type_of v = type_of w"
  shows "ValidateValueType k v = ValidateValueType k w"
  unfolding ValidateValueType_def is_a_def is_Stringer_def fmt_T_def assms ..

subsection \<open>Unfolding the definitions at concrete inputs\<close>

lemmas guard_defs =
  addSyncAndSanityCheck_def guarded_StartBlock_def doSyncAndSanityCheck_def call_Sync_def
  pass_on_def call_StartBlock_def unchanged_def int64_def Let_def

lemmas sample_defs =
  sample_guard_def sample_env_def sample_options_def recording_backend_def bank_filter_def
  empty_world_def

lemmas manager_defs =
  StartManager_def unmarshalConfig_def wrap_target_def finish_def call_init_def
  childLogger_for_def log_Info_def zero_ManagerResult_def zero_Listener_def

lemmas sample_manager_defs =
  sample_manager_def recorder_init_def broken_init_def one_target_def target_of_type_def noting_filter_def

section \<open>The sync guard: what the first block start decides\<close>

text \<open>
  In the theorems of this section a guard is made by \<open>addSyncAndSanityCheck\<close> in a world
  \<open>w0\<close>, which puts its variable \<^verbatim>\<open>initialized\<close> in the cell \<open>next_cell w0\<close>; a
  world \<open>w\<close> in which that cell is still false is one in which the guard has not yet
  passed its check, so that a block start delivered in \<open>w\<close> is the first it decides on.
  The world right after the guard is made is such a world.
\<close>

text \<open>
  Claim C1. For a target with \<open>lastBlockPersisted \<ge> 1\<close>, when the first block start the
  guard sees has a height \<open>H\<close> with \<open>lastBlockPersisted + 1 \<noteq> H\<close> (the target is ahead, or
  there is a gap), the guard returns an error whose message includes the persisted height
  and the observed height, both in decimal; the world is left as it was: no catch-up sync
  is called, the listener's own \<^verbatim>\<open>StartBlock\<close> is not called, and the guard stays
  unchecked.
\<close>

theorem out_of_sync_is_fatal:
  assumes "1 \<le> sint lbp" and "sint lbp + 1 \<noteq> uint (Height d)"
    and "\<not> cells w (next_cell w0)"
  shows "deliver (StartBlock (fst (addSyncAndSanityCheck env lbp l opts mf w0))) [d] w
           = ([Some (out_of_sync_error lbp (Height d))], w)
         \<and> is_prefix ''fatal error'' (out_of_sync_error lbp (Height d))
         \<and> contains (out_of_sync_error lbp (Height d)) (fmt_d (sint lbp))
         \<and> contains (out_of_sync_error lbp (Height d)) (fmt_d (uint (Height d)))"
proof -
  have "lbp \<noteq> - 1"
    using assms(1) by (rule sint_ge_1_ne)
  then have "deliver (StartBlock (fst (addSyncAndSanityCheck env lbp l opts mf w0))) [d] w
    = ([Some (out_of_sync_error lbp (Height d))], w)"
    using assms(3)
    by (simp add: addSyncAndSanityCheck_closure guarded_StartBlock_def
        out_of_sync_check [OF assms(1,2)])
  moreover have "is_prefix ''fatal error'' (out_of_sync_error lbp (Height d))"
    by (simp add: out_of_sync_error_def)
  ultimately show ?thesis
    using out_of_sync_error_contains by blast
qed

theorem out_of_sync_is_fatal_witness:
  "1 \<le> sint (5 :: int64) \<and> sint (5 :: int64) + 1 \<noteq> uint (Height \<lparr>Height = 7\<rparr>)
   \<and> \<not> cells (snd (sample_guard True 5)) (next_cell empty_world)
   \<and> deliver (StartBlock (fst (sample_guard True 5))) [\<lparr>Height = 7\<rparr>] (snd (sample_guard True 5))
       = ([Some ''fatal error: indexer is out of sync, last block persisted: 5, current block height: 7''],
          \<lparr>cells = (\<lambda>a. False), next_cell = 1, calls = [], ext = []\<rparr>)
   \<and> contains ''fatal error: indexer is out of sync, last block persisted: 5, current block height: 7''
        (fmt_d (sint (5 :: int64)))
   \<and> contains ''fatal error: indexer is out of sync, last block persisted: 5, current block height: 7''
        (fmt_d (uint (Height \<lparr>Height = 7\<rparr>)))"
proof -
  have h1: "1 \<le> sint (5 :: int64)" by simp
  have h2: "sint (5 :: int64) + 1 \<noteq> uint (Height \<lparr>Height = 7\<rparr>)" by simp
  have h3: "\<not> cells (snd (sample_guard True 5)) (next_cell empty_world)"
    by (simp add: guard_defs sample_defs)
  have m: "out_of_sync_error 5 7
    = ''fatal error: indexer is out of sync, last block persisted: 5, current block height: 7''"
    by (simp add: out_of_sync_error_def fmt_d_def digits.simps)
  have w: "snd (sample_guard True 5) = \<lparr>cells = (\<lambda>a. False), next_cell = 1, calls = [], ext = []\<rparr>"
    by (simp add: guard_defs sample_defs fun_eq_iff)
  show ?thesis
    using h1 h2 h3
      out_of_sync_is_fatal [OF h1 h2 h3, of "sample_env True" recording_backend
        "sample_options [1] None" bank_filter]
    unfolding sample_guard_def [symmetric]
    by (simp add: m w)
qed

text \<open>
  Claim C2, as amended. For a target with \<open>lastBlockPersisted = 0\<close>, when the first block
  start the guard sees has a height other than 1, the guard calls \<^verbatim>\<open>decoding.Sync\<close>
  exactly once, with the manager's sync source and resolver and with the target's module
  filter as the only option, before anything else; when the sync returns no error the
  guard becomes checked and the same event goes to the listener's own \<^verbatim>\<open>StartBlock\<close>,
  and when it fails its error is returned and the event goes no further. The call names
  no height.
\<close>

theorem catch_up_sync_once:
  assumes "Height d \<noteq> 1" and "\<not> cells w (next_cell w0)"
  shows "deliver (StartBlock (fst (addSyncAndSanityCheck env 0 l opts mf w0))) [d] w =
     (case call_Sync env (next_cell w0) l (SyncSource opts) (Resolver opts)
             \<lparr>ModuleFilter = ToFunction env mf\<rparr> w of
        (Some err, w') \<Rightarrow> ([Some err], w')
      | (None, w') \<Rightarrow>
          (case pass_on (StartBlock l) d (w'\<lparr>cells := (cells w')(next_cell w0 := True)\<rparr>) of
             (r, w'') \<Rightarrow> ([r], w'')))
   \<and> calls (snd (deliver (StartBlock (fst (addSyncAndSanityCheck env 0 l opts mf w0))) [d] w)) =
       calls w
       @ [Sync_called (next_cell w0) (SyncSource opts) (Resolver opts)
            \<lparr>ModuleFilter = ToFunction env mf\<rparr>]
       @ (if fst (decoding_Sync env (next_cell w0) l (SyncSource opts) (Resolver opts)
                   \<lparr>ModuleFilter = ToFunction env mf\<rparr> (ext w)) = None
             \<and> StartBlock l \<noteq> None
          then [StartBlock_called d] else [])"
proof -
  let ?so = "\<lparr>ModuleFilter = ToFunction env mf\<rparr>"
  let ?a = "next_cell w0"
  let ?g = "StartBlock (fst (addSyncAndSanityCheck env 0 l opts mf w0))"
  let ?sync = "call_Sync env ?a l (SyncSource opts) (Resolver opts) ?so w"
  have g: "?g = Some (guarded_StartBlock env ?a 0 l (StartBlock l) opts mf)"
    by (simp add: addSyncAndSanityCheck_closure)
  have run: "deliver ?g [d] w =
     (case ?sync of
        (Some err, w') \<Rightarrow> ([Some err], w')
      | (None, w') \<Rightarrow>
          (case pass_on (StartBlock l) d (w'\<lparr>cells := (cells w')(?a := True)\<rparr>) of
             (r, w'') \<Rightarrow> ([r], w'')))"
    using assms(2)
    by (simp add: g guarded_StartBlock_def catch_up_check [OF assms(1)]
        split: prod.splits option.splits)
  have "calls (snd (deliver ?g [d] w)) =
       calls w @ [Sync_called ?a (SyncSource opts) (Resolver opts) ?so]
       @ (if fst (decoding_Sync env ?a l (SyncSource opts) (Resolver opts) ?so (ext w)) = None
             \<and> StartBlock l \<noteq> None
          then [StartBlock_called d] else [])"
  proof (cases "fst (decoding_Sync env ?a l (SyncSource opts) (Resolver opts) ?so (ext w))")
    case None
    then show ?thesis
      unfolding run call_Sync_result
      by (simp add: snd_single pass_on_calls)
  next
    case (Some e)
    then show ?thesis
      unfolding run call_Sync_result by simp
  qed
  with run show ?thesis
    by blast
qed

theorem catch_up_sync_once_witness:
  "Height \<lparr>Height = 10\<rparr> \<noteq> 1 \<and> \<not> cells (snd (sample_guard True 0)) (next_cell empty_world)
   \<and> deliver (StartBlock (fst (sample_guard True 0))) [\<lparr>Height = 10\<rparr>] (snd (sample_guard True 0))
      = ([None],
         \<lparr>cells = (\<lambda>a. a = 0), next_cell = 1,
          calls = [Sync_called 0 (Some (SyncSource_handle 0)) (Some (DecoderResolver_handle 0))
                     \<lparr>ModuleFilter = Some (\<lambda>m. m \<in> set [''bank''])\<rparr>,
                   StartBlock_called \<lparr>Height = 10\<rparr>],
          ext = [Backend_saw 10]\<rparr>)"
proof -
  have h1: "Height \<lparr>Height = 10\<rparr> \<noteq> 1" by simp
  have h2: "\<not> cells (snd (sample_guard True 0)) (next_cell empty_world)"
    by (simp add: guard_defs sample_defs)
  show ?thesis
    using h1 h2
      catch_up_sync_once [OF h1 h2, of "sample_env True" recording_backend
        "sample_options [1] None" bank_filter]
    by (simp add: guard_defs sample_defs fun_eq_iff)
qed

text \<open>
  The claim as stated has the sync cover the heights 1 to \<open>H - 1\<close>. The request does not
  depend on \<open>H\<close>: first block starts of height 10 and of height 20 lead to one and the
  same call, which cannot be both for the heights 1 to 9 and for the heights 1 to 19.
\<close>

theorem sync_call_names_no_height_counterexample:
  "Sync_calls (calls (snd (deliver (StartBlock (fst (sample_guard True 0))) [\<lparr>Height = 10\<rparr>]
                            (snd (sample_guard True 0)))))
     = [Sync_called 0 (Some (SyncSource_handle 0)) (Some (DecoderResolver_handle 0))
          \<lparr>ModuleFilter = Some (\<lambda>m. m \<in> set [''bank''])\<rparr>]
   \<and> Sync_calls (calls (snd (deliver (StartBlock (fst (sample_guard True 0))) [\<lparr>Height = 20\<rparr>]
                            (snd (sample_guard True 0)))))
     = [Sync_called 0 (Some (SyncSource_handle 0)) (Some (DecoderResolver_handle 0))
          \<lparr>ModuleFilter = Some (\<lambda>m. m \<in> set [''bank''])\<rparr>]"
  by (simp add: guard_defs sample_defs Sync_calls_def)

text \<open>
  Claim C3. No catch-up sync is called and the check raises no error when
  \<open>lastBlockPersisted = -1\<close> (the listener is returned as it came: no guard is made, and a
  block start goes straight to the listener's own \<^verbatim>\<open>StartBlock\<close>), when
  \<open>lastBlockPersisted = 0\<close> and \<open>H = 1\<close>, and when \<open>lastBlockPersisted \<ge> 1\<close> and
  \<open>lastBlockPersisted + 1 = H\<close>. In the last two cases the check returns no error and
  leaves the world as it was, the guard becomes checked and the event is passed on; what
  the delivery returns is what the listener's own \<^verbatim>\<open>StartBlock\<close> returns, and nothing
  when the listener has none. Passing an event on calls no sync.
\<close>

theorem no_sync_when_in_step:
  assumes "lbp = - 1 \<or> \<not> cells w (next_cell w0)
             \<and> (lbp = 0 \<and> Height d = 1 \<or> 1 \<le> sint lbp \<and> sint lbp + 1 = uint (Height d))"
  shows "deliver (StartBlock (fst (addSyncAndSanityCheck env lbp l opts mf w0))) [d] w
           = (case pass_on (StartBlock l) d
                     (if lbp = - 1 then w else w\<lparr>cells := (cells w)(next_cell w0 := True)\<rparr>) of
                (r, w') \<Rightarrow> ([r], w'))
         \<and> Sync_calls (calls (snd (deliver
               (StartBlock (fst (addSyncAndSanityCheck env lbp l opts mf w0))) [d] w)))
             = Sync_calls (calls w)
         \<and> (if lbp = - 1 then addSyncAndSanityCheck env lbp l opts mf w0 = (unchanged l, w0)
             else doSyncAndSanityCheck env lbp d (next_cell w0) l opts mf w = (None, w))
         \<and> (if StartBlock l = None
             then fst (deliver (StartBlock (fst (addSyncAndSanityCheck env lbp l opts mf w0))) [d] w)
                    = [None]
             else fst (deliver (StartBlock (fst (addSyncAndSanityCheck env lbp l opts mf w0))) [d] w)
                    = [fst (the (StartBlock l) d (ext w))])"
proof -
  let ?W = "if lbp = - 1 then w else w\<lparr>cells := (cells w)(next_cell w0 := True)\<rparr>"
  let ?run = "deliver (StartBlock (fst (addSyncAndSanityCheck env lbp l opts mf w0))) [d] w"
  have chk: "doSyncAndSanityCheck env lbp d (next_cell w0) l opts mf w = (None, w)" if "lbp \<noteq> - 1"
    using that assms by (intro in_sync_check) blast
  have run: "?run = (case pass_on (StartBlock l) d ?W of (r, w') \<Rightarrow> ([r], w'))"
  proof (cases "lbp = - 1")
    case True
    then show ?thesis
      by (simp add: addSyncAndSanityCheck_def deliver_unchanged del: deliver.simps)
  next
    case False
    with assms have "\<not> cells w (next_cell w0)"
      by blast
    with False show ?thesis
      by (simp add: first_delivery chk del: deliver.simps)
  qed
  have sync: "Sync_calls (calls (snd ?run)) = Sync_calls (calls w)"
    unfolding run by (simp add: snd_single pass_on_Sync_calls)
  have res: "fst ?run = [fst (pass_on (StartBlock l) d ?W)]"
    unfolding run by (cases "pass_on (StartBlock l) d ?W") simp
  have "fst (pass_on (StartBlock l) d ?W)
          = (case StartBlock l of None \<Rightarrow> None | Some f \<Rightarrow> fst (f d (ext w)))"
    by (cases "StartBlock l") (auto simp: pass_on_def call_StartBlock_def split: prod.splits)
  with res have out: "if StartBlock l = None then fst ?run = [None]
             else fst ?run = [fst (the (StartBlock l) d (ext w))]"
    by (cases "StartBlock l") simp_all
  have "if lbp = - 1 then addSyncAndSanityCheck env lbp l opts mf w0 = (unchanged l, w0)
             else doSyncAndSanityCheck env lbp d (next_cell w0) l opts mf w = (None, w)"
    using chk by (simp add: addSyncAndSanityCheck_def)
  with run sync out show ?thesis
    by blast
qed

theorem no_sync_when_in_step_witness:
  "((5 :: int64) = - 1 \<or> \<not> cells (snd (sample_guard True 5)) (next_cell empty_world)
      \<and> ((5 :: int64) = 0 \<and> Height \<lparr>Height = 6\<rparr> = 1
          \<or> 1 \<le> sint (5 :: int64) \<and> sint (5 :: int64) + 1 = uint (Height \<lparr>Height = 6\<rparr>)))
   \<and> deliver (StartBlock (fst (sample_guard True 5))) [\<lparr>Height = 6\<rparr>] (snd (sample_guard True 5))
       = ([None],
          \<lparr>cells = (\<lambda>a. a = 0), next_cell = 1, calls = [StartBlock_called \<lparr>Height = 6\<rparr>],
           ext = [Backend_saw 6]\<rparr>)
   \<and> ((0 :: int64) = - 1 \<or> \<not> cells (snd (sample_guard True 0)) (next_cell empty_world)
      \<and> ((0 :: int64) = 0 \<and> Height \<lparr>Height = 1\<rparr> = 1
          \<or> 1 \<le> sint (0 :: int64) \<and> sint (0 :: int64) + 1 = uint (Height \<lparr>Height = 1\<rparr>)))
   \<and> deliver (StartBlock (fst (sample_guard True 0))) [\<lparr>Height = 1\<rparr>] (snd (sample_guard True 0))
       = ([None],
          \<lparr>cells = (\<lambda>a. a = 0), next_cell = 1, calls = [StartBlock_called \<lparr>Height = 1\<rparr>],
           ext = [Backend_saw 1]\<rparr>)
   \<and> sample_guard True (- 1) = (unchanged recording_backend, empty_world)
   \<and> deliver (StartBlock (fst (sample_guard True (- 1)))) [\<lparr>Height = 9\<rparr>] empty_world
       = ([None],
          \<lparr>cells = (\<lambda>a. False), next_cell = 0, calls = [StartBlock_called \<lparr>Height = 9\<rparr>],
           ext = [Backend_saw 9]\<rparr>)"
proof -
  have h5: "(5 :: int64) = - 1 \<or> \<not> cells (snd (sample_guard True 5)) (next_cell empty_world)
      \<and> ((5 :: int64) = 0 \<and> Height \<lparr>Height = 6\<rparr> = 1
          \<or> 1 \<le> sint (5 :: int64) \<and> sint (5 :: int64) + 1 = uint (Height \<lparr>Height = 6\<rparr>))"
    by (simp add: guard_defs sample_defs)
  have h0: "(0 :: int64) = - 1 \<or> \<not> cells (snd (sample_guard True 0)) (next_cell empty_world)
      \<and> ((0 :: int64) = 0 \<and> Height \<lparr>Height = 1\<rparr> = 1
          \<or> 1 \<le> sint (0 :: int64) \<and> sint (0 :: int64) + 1 = uint (Height \<lparr>Height = 1\<rparr>))"
    by (simp add: guard_defs sample_defs)
  have hm: "(- 1 :: int64) = - 1 \<or> \<not> cells empty_world (next_cell empty_world)
      \<and> ((- 1 :: int64) = 0 \<and> Height \<lparr>Height = 9\<rparr> = 1
          \<or> 1 \<le> sint (- 1 :: int64) \<and> sint (- 1 :: int64) + 1 = uint (Height \<lparr>Height = 9\<rparr>))"
    by simp
  show ?thesis
    using h5 h0
      no_sync_when_in_step [OF h5, of "sample_env True" recording_backend
        "sample_options [1] None" bank_filter]
      no_sync_when_in_step [OF h0, of "sample_env True" recording_backend
        "sample_options [1] None" bank_filter]
      no_sync_when_in_step [OF hm, of "sample_env True" recording_backend
        "sample_options [1] None" bank_filter]
    by (simp add: guard_defs sample_defs fun_eq_iff)
qed

text \<open>
  Claim C4. For every target the check runs once. When block starts are delivered to a
  guarded listener that has not yet passed its check, the check is run on the first of
  them: if it passes, that event and every later one go straight to the listener's own
  \<^verbatim>\<open>StartBlock\<close>, with no check and no catch-up sync; if it fails, its error is what the
  delivery returns, and the delivery to this target ends there. Over the whole delivery the
  only sync that can be called is the one the check makes on the first block start, and
  passing events on calls none. With \<open>lastBlockPersisted = -1\<close> no guard is made and every
  block start goes straight to the listener's own \<^verbatim>\<open>StartBlock\<close>.
\<close>

theorem check_runs_once:
  assumes "lbp = - 1 \<or> \<not> cells w (next_cell w0)"
  shows "deliver_stop (StartBlock (fst (addSyncAndSanityCheck env lbp l opts mf w0))) (d # ds) w =
           (if lbp = - 1 then deliver_stop (Some (pass_on (StartBlock l))) (d # ds) w
            else case doSyncAndSanityCheck env lbp d (next_cell w0) l opts mf w of
                   (Some err, w') \<Rightarrow> ([Some err], w')
                 | (None, w') \<Rightarrow>
                     deliver_stop (Some (pass_on (StartBlock l))) (d # ds)
                       (w'\<lparr>cells := (cells w')(next_cell w0 := True)\<rparr>))
         \<and> Sync_calls (calls (snd (deliver_stop
               (StartBlock (fst (addSyncAndSanityCheck env lbp l opts mf w0))) (d # ds) w))) =
             Sync_calls (calls w)
             @ (if lbp = 0 \<and> Height d \<noteq> 1
                then [Sync_called (next_cell w0) (SyncSource opts) (Resolver opts)
                        \<lparr>ModuleFilter = ToFunction env mf\<rparr>]
                else [])
         \<and> Sync_calls (calls (snd (deliver_stop (Some (pass_on (StartBlock l))) es v)))
             = Sync_calls (calls v)"
proof (intro conjI)
  let ?G = "StartBlock (fst (addSyncAndSanityCheck env lbp l opts mf w0))"
  let ?a = "next_cell w0"
  show run: "deliver_stop ?G (d # ds) w =
           (if lbp = - 1 then deliver_stop (Some (pass_on (StartBlock l))) (d # ds) w
            else case doSyncAndSanityCheck env lbp d ?a l opts mf w of
                   (Some err, w') \<Rightarrow> ([Some err], w')
                 | (None, w') \<Rightarrow>
                     deliver_stop (Some (pass_on (StartBlock l))) (d # ds)
                       (w'\<lparr>cells := (cells w')(?a := True)\<rparr>))"
  proof (cases "lbp = - 1")
    case True
    then show ?thesis
      by (simp add: addSyncAndSanityCheck_def deliver_stop_unchanged del: deliver_stop.simps)
  next
    case False
    with assms have "\<not> cells w ?a"
      by blast
    with False show ?thesis
      by (simp add: first_delivery_stop del: deliver_stop.simps)
  qed
  show "Sync_calls (calls (snd (deliver_stop (Some (pass_on (StartBlock l))) es v)))
             = Sync_calls (calls v)"
    by (rule deliver_stop_pass_on_Sync_calls)
  show "Sync_calls (calls (snd (deliver_stop ?G (d # ds) w))) =
             Sync_calls (calls w)
             @ (if lbp = 0 \<and> Height d \<noteq> 1
                then [Sync_called ?a (SyncSource opts) (Resolver opts)
                        \<lparr>ModuleFilter = ToFunction env mf\<rparr>]
                else [])"
  proof (cases "lbp = - 1")
    case True
    then have "lbp \<noteq> 0"
      by auto
    with True show ?thesis
      unfolding run by (simp add: deliver_stop_pass_on_Sync_calls del: deliver_stop.simps)
  next
    case False
    obtain r w' where c: "doSyncAndSanityCheck env lbp d ?a l opts mf w = (r, w')"
      by (cases "doSyncAndSanityCheck env lbp d ?a l opts mf w")
    have s: "Sync_calls (calls w') = Sync_calls (calls w)
             @ (if lbp = 0 \<and> Height d \<noteq> 1
                then [Sync_called ?a (SyncSource opts) (Resolver opts)
                        \<lparr>ModuleFilter = ToFunction env mf\<rparr>]
                else [])"
      using check_Sync_calls [of env lbp d ?a l opts mf w] by (simp add: c)
    show ?thesis
    proof (cases r)
      case (Some err)
      with False s show ?thesis
        unfolding run by (simp add: c)
    next
      case None
      have "Sync_calls (calls (snd (deliver_stop (Some (pass_on (StartBlock l))) (d # ds)
               (w'\<lparr>cells := (cells w')(?a := True)\<rparr>))))
            = Sync_calls (calls (w'\<lparr>cells := (cells w')(?a := True)\<rparr>))"
        by (rule deliver_stop_pass_on_Sync_calls)
      with False None s show ?thesis
        unfolding run by (simp add: c del: deliver_stop.simps)
    qed
  qed
qed

theorem check_runs_once_witness:
  "((5 :: int64) = - 1 \<or> \<not> cells (snd (sample_guard True 5)) (next_cell empty_world))
   \<and> deliver_stop (StartBlock (fst (sample_guard True 5)))
        [\<lparr>Height = 6\<rparr>, \<lparr>Height = 9\<rparr>, \<lparr>Height = 3\<rparr>] (snd (sample_guard True 5))
       = ([None, None, None],
          \<lparr>cells = (\<lambda>a. a = 0), next_cell = 1,
           calls = [StartBlock_called \<lparr>Height = 6\<rparr>, StartBlock_called \<lparr>Height = 9\<rparr>,
                    StartBlock_called \<lparr>Height = 3\<rparr>],
           ext = [Backend_saw 6, Backend_saw 9, Backend_saw 3]\<rparr>)
   \<and> deliver_stop (StartBlock (fst (sample_guard True 5))) [\<lparr>Height = 7\<rparr>, \<lparr>Height = 6\<rparr>]
        (snd (sample_guard True 5))
       = ([Some (out_of_sync_error 5 7)],
          \<lparr>cells = (\<lambda>a. False), next_cell = 1, calls = [], ext = []\<rparr>)
   \<and> ((0 :: int64) = - 1 \<or> \<not> cells (snd (sample_guard True 0)) (next_cell empty_world))
   \<and> deliver_stop (StartBlock (fst (sample_guard True 0))) [\<lparr>Height = 10\<rparr>, \<lparr>Height = 11\<rparr>]
        (snd (sample_guard True 0))
       = ([None, None],
          \<lparr>cells = (\<lambda>a. a = 0), next_cell = 1,
           calls = [Sync_called 0 (Some (SyncSource_handle 0)) (Some (DecoderResolver_handle 0))
                      \<lparr>ModuleFilter = Some (\<lambda>m. m \<in> set [''bank''])\<rparr>,
                    StartBlock_called \<lparr>Height = 10\<rparr>, StartBlock_called \<lparr>Height = 11\<rparr>],
           ext = [Backend_saw 10, Backend_saw 11]\<rparr>)
   \<and> deliver_stop (StartBlock (fst (sample_guard True (- 1)))) [\<lparr>Height = 4\<rparr>, \<lparr>Height = 2\<rparr>]
        empty_world
       = ([None, None],
          \<lparr>cells = (\<lambda>a. False), next_cell = 0,
           calls = [StartBlock_called \<lparr>Height = 4\<rparr>, StartBlock_called \<lparr>Height = 2\<rparr>],
           ext = [Backend_saw 4, Backend_saw 2]\<rparr>)"
proof -
  have h5: "(5 :: int64) = - 1 \<or> \<not> cells (snd (sample_guard True 5)) (next_cell empty_world)"
    by (simp add: guard_defs sample_defs)
  have h0: "(0 :: int64) = - 1 \<or> \<not> cells (snd (sample_guard True 0)) (next_cell empty_world)"
    by (simp add: guard_defs sample_defs)
  have hm: "(- 1 :: int64) = - 1 \<or> \<not> cells empty_world (next_cell empty_world)"
    by simp
  show ?thesis
    using h5 h0
      check_runs_once [OF h5, where env = "sample_env True" and l = recording_backend
        and opts = "sample_options [1] None" and mf = bank_filter and d = "\<lparr>Height = 6\<rparr>"
        and ds = "[\<lparr>Height = 9\<rparr>, \<lparr>Height = 3\<rparr>]"]
      check_runs_once [OF h5, where env = "sample_env True" and l = recording_backend
        and opts = "sample_options [1] None" and mf = bank_filter and d = "\<lparr>Height = 7\<rparr>"
        and ds = "[\<lparr>Height = 6\<rparr>]"]
      check_runs_once [OF h0, where env = "sample_env True" and l = recording_backend
        and opts = "sample_options [1] None" and mf = bank_filter and d = "\<lparr>Height = 10\<rparr>"
        and ds = "[\<lparr>Height = 11\<rparr>]"]
      check_runs_once [OF hm, where env = "sample_env True" and l = recording_backend
        and opts = "sample_options [1] None" and mf = bank_filter and d = "\<lparr>Height = 4\<rparr>"
        and ds = "[\<lparr>Height = 2\<rparr>]"]
    by (simp add: guard_defs sample_defs fun_eq_iff)
qed

section \<open>The manager\<close>

text \<open>
  Claim C5, as amended. For every configured target that resolves, validates and
  initializes, \<open>StartManager\<close> applies the target's filter to the initializer's listener
  and then wraps the result with the sync guard, and collects that: the guard is the
  outer layer. A block start reaches the guard's check first; an event the check refuses
  reaches nothing else; an event it lets through, and every event after the check has
  passed, goes to the \<^verbatim>\<open>StartBlock\<close> of the filtered listener. With
  \<open>lastBlockPersisted = -1\<close> there is no guard and the filtered listener is collected as
  it is.
\<close>

theorem guard_wraps_filtered_listener:
  "(indexerRegistry env (Type cfg) = Some init
      \<and> Filter_Validate env (Filter cfg) = None
      \<and> childLogger_for logger name = Returns cl
      \<and> call_init (Type cfg) init \<lparr>ip_Config = cfg, ip_Context = ctx, ip_Logger = cl\<rparr>
           (log_Info logger ''Starting indexer'' [''target'', name, ''type'', Type cfg] w1)
         = ((initRes, None), w0) \<longrightarrow>
      start_targets env opts logger ctx ((name, cfg) # rest) ls fs w1 =
        start_targets env opts logger ctx rest
          (ls @ [fst (wrap_target env opts cfg initRes w0)]) (fs @ [Modules (Filter cfg)])
          (snd (wrap_target env opts cfg initRes w0)))
   \<and> wrap_target env opts cfg initRes w0 =
       addSyncAndSanityCheck env (LastBlockPersisted initRes)
         (Filter_Apply env (Filter cfg) (Listener initRes)) opts (Modules (Filter cfg)) w0
   \<and> (LastBlockPersisted initRes = - 1 \<longrightarrow>
        fst (wrap_target env opts cfg initRes w0)
          = unchanged (Filter_Apply env (Filter cfg) (Listener initRes)))
   \<and> (LastBlockPersisted initRes \<noteq> - 1 \<and> \<not> cells w (next_cell w0) \<longrightarrow>
        deliver (StartBlock (fst (wrap_target env opts cfg initRes w0))) [d] w =
          (case doSyncAndSanityCheck env (LastBlockPersisted initRes) d (next_cell w0)
                  (Filter_Apply env (Filter cfg) (Listener initRes)) opts (Modules (Filter cfg)) w of
             (Some err, w') \<Rightarrow> ([Some err], w')
           | (None, w') \<Rightarrow>
               (case pass_on (StartBlock (Filter_Apply env (Filter cfg) (Listener initRes))) d
                       (w'\<lparr>cells := (cells w')(next_cell w0 := True)\<rparr>) of
                  (r, w'') \<Rightarrow> ([r], w''))))
   \<and> (LastBlockPersisted initRes \<noteq> - 1 \<and> cells w (next_cell w0) \<longrightarrow>
        deliver (StartBlock (fst (wrap_target env opts cfg initRes w0))) ds w =
          deliver (Some (pass_on (StartBlock (Filter_Apply env (Filter cfg) (Listener initRes))))) ds w)"
proof (intro conjI impI)
  let ?fl = "Filter_Apply env (Filter cfg) (Listener initRes)"
  let ?lbp = "LastBlockPersisted initRes"
  show "start_targets env opts logger ctx ((name, cfg) # rest) ls fs w1 =
        start_targets env opts logger ctx rest
          (ls @ [fst (wrap_target env opts cfg initRes w0)]) (fs @ [Modules (Filter cfg)])
          (snd (wrap_target env opts cfg initRes w0))"
    if "indexerRegistry env (Type cfg) = Some init
      \<and> Filter_Validate env (Filter cfg) = None
      \<and> childLogger_for logger name = Returns cl
      \<and> call_init (Type cfg) init \<lparr>ip_Config = cfg, ip_Context = ctx, ip_Logger = cl\<rparr>
           (log_Info logger ''Starting indexer'' [''target'', name, ''type'', Type cfg] w1)
         = ((initRes, None), w0)"
    using that by (intro start_targets_step) blast+
  show "wrap_target env opts cfg initRes w0 =
       addSyncAndSanityCheck env ?lbp ?fl opts (Modules (Filter cfg)) w0"
    by (rule wrap_target_eq)
  show "fst (wrap_target env opts cfg initRes w0) = unchanged ?fl" if "?lbp = - 1"
    using that by (simp add: wrap_target_eq addSyncAndSanityCheck_def)
  show "deliver (StartBlock (fst (wrap_target env opts cfg initRes w0))) [d] w =
          (case doSyncAndSanityCheck env ?lbp d (next_cell w0) ?fl opts (Modules (Filter cfg)) w of
             (Some err, w') \<Rightarrow> ([Some err], w')
           | (None, w') \<Rightarrow>
               (case pass_on (StartBlock ?fl) d (w'\<lparr>cells := (cells w')(next_cell w0 := True)\<rparr>) of
                  (r, w'') \<Rightarrow> ([r], w'')))"
    if "?lbp \<noteq> - 1 \<and> \<not> cells w (next_cell w0)"
    unfolding wrap_target_eq using that by (intro first_delivery) blast+
  show "deliver (StartBlock (fst (wrap_target env opts cfg initRes w0))) ds w =
          deliver (Some (pass_on (StartBlock ?fl))) ds w"
    if "?lbp \<noteq> - 1 \<and> cells w (next_cell w0)"
    unfolding wrap_target_eq using that by (intro later_deliveries) blast+
qed

theorem guard_wraps_filtered_listener_witness:
  "(indexerRegistry (sample_env True) (Type (target_of_type ''recorder'')) = Some recorder_init
      \<and> Filter_Validate (sample_env True) (Filter (target_of_type ''recorder'')) = None
      \<and> childLogger_for NoopLogger ''t1'' = Returns NoopLogger
      \<and> call_init (Type (target_of_type ''recorder'')) recorder_init
           \<lparr>ip_Config = target_of_type ''recorder'', ip_Context = Background, ip_Logger = NoopLogger\<rparr>
           (log_Info NoopLogger ''Starting indexer''
              [''target'', ''t1'', ''type'', Type (target_of_type ''recorder'')] empty_world)
         = ((\<lparr>Listener = recording_backend, LastBlockPersisted = 5\<rparr>, None),
            \<lparr>cells = (\<lambda>a. False), next_cell = 0,
             calls = [Info_logged NoopLogger ''Starting indexer''
                        [''target'', ''t1'', ''type'', ''recorder''],
                      Init_called ''recorder''],
             ext = []\<rparr>))
   \<and> (LastBlockPersisted \<lparr>Listener = recording_backend, LastBlockPersisted = 5\<rparr> \<noteq> - 1
      \<and> \<not> cells (snd (wrap_target (sample_env True) (sample_options [1] None)
                       (target_of_type ''recorder'')
                       \<lparr>Listener = recording_backend, LastBlockPersisted = 5\<rparr> empty_world))
              (next_cell empty_world))
   \<and> deliver (StartBlock (fst (wrap_target (sample_env True) (sample_options [1] None)
                       (target_of_type ''recorder'')
                       \<lparr>Listener = recording_backend, LastBlockPersisted = 5\<rparr> empty_world)))
        [\<lparr>Height = 6\<rparr>]
        (snd (wrap_target (sample_env True) (sample_options [1] None)
                       (target_of_type ''recorder'')
                       \<lparr>Listener = recording_backend, LastBlockPersisted = 5\<rparr> empty_world))
       = ([None],
          \<lparr>cells = (\<lambda>a. a = 0), next_cell = 1, calls = [StartBlock_called \<lparr>Height = 6\<rparr>],
           ext = [Filter_saw 6, Backend_saw 6]\<rparr>)
   \<and> deliver (StartBlock (fst (wrap_target (sample_env True) (sample_options [1] None)
                       (target_of_type ''recorder'')
                       \<lparr>Listener = recording_backend, LastBlockPersisted = 5\<rparr> empty_world)))
        [\<lparr>Height = 7\<rparr>]
        (snd (wrap_target (sample_env True) (sample_options [1] None)
                       (target_of_type ''recorder'')
                       \<lparr>Listener = recording_backend, LastBlockPersisted = 5\<rparr> empty_world))
       = ([Some (out_of_sync_error 5 7)],
          \<lparr>cells = (\<lambda>a. False), next_cell = 1, calls = [], ext = []\<rparr>)
   \<and> (LastBlockPersisted \<lparr>Listener = recording_backend, LastBlockPersisted = 5\<rparr> \<noteq> - 1
      \<and> cells \<lparr>cells = (\<lambda>a. a = 0), next_cell = 1, calls = [], ext = []\<rparr> (next_cell empty_world))
   \<and> deliver (StartBlock (fst (wrap_target (sample_env True) (sample_options [1] None)
                       (target_of_type ''recorder'')
                       \<lparr>Listener = recording_backend, LastBlockPersisted = 5\<rparr> empty_world)))
        [\<lparr>Height = 3\<rparr>]
        \<lparr>cells = (\<lambda>a. a = 0), next_cell = 1, calls = [], ext = []\<rparr>
       = ([None],
          \<lparr>cells = (\<lambda>a. a = 0), next_cell = 1, calls = [StartBlock_called \<lparr>Height = 3\<rparr>],
           ext = [Filter_saw 3, Backend_saw 3]\<rparr>)
   \<and> LastBlockPersisted \<lparr>Listener = recording_backend, LastBlockPersisted = - 1\<rparr> = - 1
   \<and> fst (wrap_target (sample_env True) (sample_options [1] None) (target_of_type ''recorder'')
            \<lparr>Listener = recording_backend, LastBlockPersisted = - 1\<rparr> empty_world)
       = unchanged (noting_filter recording_backend)"
proof -
  let ?E = "sample_env True"
  let ?O = "sample_options [1] None"
  let ?T = "target_of_type ''recorder''"
  let ?R = "\<lparr>Listener = recording_backend, LastBlockPersisted = 5\<rparr>"
  let ?R' = "\<lparr>Listener = recording_backend, LastBlockPersisted = - 1\<rparr>"
  let ?W = "snd (wrap_target ?E ?O ?T ?R empty_world)"
  let ?C = "\<lparr>cells = (\<lambda>a. a = 0), next_cell = 1, calls = [], ext = []\<rparr> :: seen list world"
  have h0: "indexerRegistry ?E (Type ?T) = Some recorder_init
      \<and> Filter_Validate ?E (Filter ?T) = None
      \<and> childLogger_for NoopLogger ''t1'' = Returns NoopLogger
      \<and> call_init (Type ?T) recorder_init
           \<lparr>ip_Config = ?T, ip_Context = Background, ip_Logger = NoopLogger\<rparr>
           (log_Info NoopLogger ''Starting indexer'' [''target'', ''t1'', ''type'', Type ?T] empty_world)
         = ((?R, None),
            \<lparr>cells = (\<lambda>a. False), next_cell = 0,
             calls = [Info_logged NoopLogger ''Starting indexer''
                        [''target'', ''t1'', ''type'', ''recorder''],
                      Init_called ''recorder''],
             ext = []\<rparr>)"
    by (simp add: manager_defs sample_defs sample_manager_defs)
  have h: "LastBlockPersisted ?R \<noteq> - 1 \<and> \<not> cells ?W (next_cell empty_world)"
    by (simp add: manager_defs guard_defs sample_defs)
  have hc: "LastBlockPersisted ?R \<noteq> - 1 \<and> cells ?C (next_cell empty_world)"
    by (simp add: sample_defs)
  have hm: "LastBlockPersisted ?R' = - 1"
    by simp
  show ?thesis
    using h0 h hc hm
      guard_wraps_filtered_listener [where env = ?E and opts = ?O and cfg = ?T
        and initRes = ?R and ?w0.0 = empty_world and w = ?W and d = "\<lparr>Height = 6\<rparr>"]
      guard_wraps_filtered_listener [where env = ?E and opts = ?O and cfg = ?T
        and initRes = ?R and ?w0.0 = empty_world and w = ?W and d = "\<lparr>Height = 7\<rparr>"]
      guard_wraps_filtered_listener [where env = ?E and opts = ?O and cfg = ?T
        and initRes = ?R and ?w0.0 = empty_world and w = ?C and ds = "[\<lparr>Height = 3\<rparr>]"]
      guard_wraps_filtered_listener [where env = ?E and opts = ?O and cfg = ?T
        and initRes = ?R' and ?w0.0 = empty_world]
    by (simp add: manager_defs guard_defs sample_defs sample_manager_defs fun_eq_iff)
qed

text \<open>
  The claim as stated has the event pass through the filter before it reaches the guard.
  With a filter layer that notes the block starts it is handed, and a backend that
  persisted 5: the block start of height 7 is refused by the guard and the filter layer
  has seen nothing; the block start of height 6 is seen by the filter layer and then by
  the backend.
\<close>

theorem guard_outside_filter_counterexample:
  "(case sample_manager [1] None of
      (Returns (res, err), w1) \<Rightarrow>
        err = None
        \<and> deliver (StartBlock (mr_Listener res)) [\<lparr>Height = 7\<rparr>] w1
            = ([Some (out_of_sync_error 5 7)], w1)
        \<and> ext w1 = []
        \<and> ext (snd (deliver (StartBlock (mr_Listener res)) [\<lparr>Height = 6\<rparr>] w1))
            = [Filter_saw 6, Backend_saw 6]
    | (Panics p, w1) \<Rightarrow> False)"
  by (simp add: manager_defs sample_manager_defs sample_defs guard_defs fmt_q_def)



section \<open>The kinds\<close>

text \<open>
  Claim C7. For every integer \<open>k\<close>, \<open>Validate k\<close> succeeds if and only if
  \<open>InvalidKind < k \<le> JSONKind\<close>; for every \<open>k\<close> outside that range it returns an error.
\<close>

theorem Validate_iff_in_range:
  "(Validate k = None) = (InvalidKind < k \<and> k \<le> JSONKind)"
  by (simp add: Validate_def)

theorem Validate_iff_in_range_witness:
  "(Validate 7 = None) = (InvalidKind < 7 \<and> 7 \<le> JSONKind)
   \<and> Validate 7 = None \<and> Validate 0 \<noteq> None \<and> Validate 21 \<noteq> None \<and> Validate (- 3) \<noteq> None"
  using Validate_iff_in_range [of 7] Validate_iff_in_range [of 0]
    Validate_iff_in_range [of 21] Validate_iff_in_range [of "- 3"]
  by (simp add: Kind_defs)

text \<open>
  Claim C8. For every kind but \<open>JSONKind\<close>, \<open>ValidateValueType\<close> returns an error exactly
  when the dynamic type of the value is outside the set of types the kind documents, and
  for \<open>JSONKind\<close> it accepts every value. Its result depends on the type of the value
  alone: the text of a string, or of what a \<^verbatim>\<open>String\<close> method returns, is never looked
  at, whatever the kind.
\<close>

theorem ValidateValueType_acceptance:
  "(k \<noteq> JSONKind \<longrightarrow> (ValidateValueType k v \<noteq> None) = (type_of v \<notin> documented_types k))
   \<and> ValidateValueType JSONKind v = None
   \<and> (type_of v = type_of w \<longrightarrow> ValidateValueType k v = ValidateValueType k w)
   \<and> (k \<in> {IntegerKind, DecimalKind, Bech32AddressKind, EnumKind} \<longrightarrow>
        ValidateValueType k (V_string s) = None \<and> ValidateValueType k (V_other n (Some s)) = None)"
proof (intro conjI impI)
  show "(ValidateValueType k v \<noteq> None) = (type_of v \<notin> documented_types k)"
    by (simp add: ValidateValueType_None_iff)
  show "ValidateValueType JSONKind v = None"
    by (simp add: ValidateValueType_def Kind_defs)
  show "ValidateValueType k v = ValidateValueType k w" if "type_of v = type_of w"
    using that by (rule ValidateValueType_type_only)
  assume "k \<in> {IntegerKind, DecimalKind, Bech32AddressKind, EnumKind}"
  then have k: "k = IntegerKind \<or> k = DecimalKind \<or> k = Bech32AddressKind \<or> k = EnumKind"
    by simp
  from k show "ValidateValueType k (V_string s) = None"
    by (elim disjE) (simp_all add: ValidateValueType_def is_a_def Kind_defs)
  from k show "ValidateValueType k (V_other n (Some s)) = None"
    by (elim disjE) (simp_all add: ValidateValueType_def is_a_def is_Stringer_def Kind_defs)
qed

theorem ValidateValueType_acceptance_witness:
  "IntegerKind \<noteq> JSONKind
   \<and> type_of (V_int64 5) = type_of (V_int64 7)
   \<and> IntegerKind \<in> {IntegerKind, DecimalKind, Bech32AddressKind, EnumKind}
   \<and> (ValidateValueType IntegerKind (V_int64 5) \<noteq> None)
       = (type_of (V_int64 5) \<notin> documented_types IntegerKind)
   \<and> ValidateValueType IntegerKind (V_int64 5) = ValidateValueType IntegerKind (V_int64 7)
   \<and> ValidateValueType IntegerKind (V_string ''12 apples'') = None
   \<and> ValidateValueType IntegerKind (V_other ''math.Int'' (Some ''12 apples'')) = None
   \<and> ValidateValueType IntegerKind (V_int64 5) = None
   \<and> ValidateValueType Int64Kind (V_string ''5'') = Some ''expected int64, got string''
   \<and> ValidateValueType JSONKind (V_int64 5) = None"
  using ValidateValueType_acceptance [of IntegerKind "V_int64 5" "V_int64 7" "''12 apples''" "''math.Int''"]
  by (simp add: ValidateValueType_def is_a_def is_Stringer_def fmt_T_def Kind_defs)

text \<open>
  Claim C9, as amended. \<open>KindForGoValue\<close> maps every value to exactly one kind, a named
  one; never to \<open>IntegerKind\<close>, \<open>DecimalKind\<close>, \<open>Bech32AddressKind\<close> or \<open>EnumKind\<close>. A
  string, and a value of a type that kind.go does not name and that has a \<^verbatim>\<open>String\<close>
  method, maps to \<open>StringKind\<close>; \<^verbatim>\<open>nil\<close>, a map, a \<^verbatim>\<open>json.RawMessage\<close> and a value of
  a type that kind.go does not name and that has no \<^verbatim>\<open>String\<close> method map to
  \<open>JSONKind\<close>.
\<close>

theorem KindForGoValue_total:
  "(\<exists>!k. KindForGoValue v = k)
   \<and> InvalidKind < KindForGoValue v \<and> KindForGoValue v \<le> JSONKind
   \<and> KindForGoValue v \<notin> {IntegerKind, DecimalKind, Bech32AddressKind, EnumKind}
   \<and> (type_of v = T_string \<or> (\<exists>n. type_of v = T_other n True) \<longrightarrow> KindForGoValue v = StringKind)
   \<and> (type_of v \<in> {T_nil, T_map, T_RawMessage} \<or> (\<exists>n. type_of v = T_other n False) \<longrightarrow>
        KindForGoValue v = JSONKind)"
  by (cases v) (simp_all add: KindForGoValue_def is_a_def is_Stringer_def Kind_defs)

theorem KindForGoValue_total_witness:
  "(type_of (V_other ''sdk.Coin'' (Some ''5atom'')) = T_string
      \<or> (\<exists>n. type_of (V_other ''sdk.Coin'' (Some ''5atom'')) = T_other n True))
   \<and> KindForGoValue (V_other ''sdk.Coin'' (Some ''5atom'')) = StringKind
   \<and> (type_of (V_other ''struct {}'' None) \<in> {T_nil, T_map, T_RawMessage}
       \<or> (\<exists>n. type_of (V_other ''struct {}'' None) = T_other n False))
   \<and> KindForGoValue (V_other ''struct {}'' None) = JSONKind
   \<and> KindForGoValue (V_uint16 7) = Uint16Kind"
  using KindForGoValue_total [of "V_other ''sdk.Coin'' (Some ''5atom'')"]
    KindForGoValue_total [of "V_other ''struct {}'' None"]
  by (simp add: KindForGoValue_def is_a_def is_Stringer_def Kind_defs)

text \<open>
  The claim as stated has every string-like value that could as well be an integer, a
  decimal, an address or an enum fall back to \<open>JSONKind\<close>. The string \<^verbatim>\<open>12345\<close> is such
  a value (\<open>IntegerKind\<close> accepts it) and maps to \<open>StringKind\<close>.
\<close>

theorem KindForGoValue_string_like_counterexample:
  "ValidateValueType IntegerKind (V_string ''12345'') = None
   \<and> KindForGoValue (V_string ''12345'') = StringKind
   \<and> KindForGoValue (V_string ''12345'') \<noteq> JSONKind"
  by (simp add: KindForGoValue_def ValidateValueType_def is_a_def is_Stringer_def Kind_defs)

text \<open>
  Claim C10. The kind inferred for a value is a valid kind, never \<open>InvalidKind\<close>, and
  accepts that value.
\<close>

theorem KindForGoValue_consistent:
  "Validate (KindForGoValue v) = None \<and> KindForGoValue v \<noteq> InvalidKind
   \<and> ValidateValueType (KindForGoValue v) v = None"
  by (cases v) (simp_all add: KindForGoValue_def ValidateValueType_def Validate_def is_a_def
      is_Stringer_def Kind_defs)

theorem KindForGoValue_consistent_witness:
  "KindForGoValue (V_Time 0) = StringKind
   \<and> Validate (KindForGoValue (V_Time 0)) = None
   \<and> ValidateValueType (KindForGoValue (V_Time 0)) (V_Time 0) = None"
  using KindForGoValue_consistent [of "V_Time 0"]
  by (simp add: KindForGoValue_def is_a_def is_Stringer_def)

end
